theory Spec2Isabelle
  imports Complex_Main "HOL-Library.Char_ord" "HOL-Library.List_Lexorder" "HOL-Library.Multiset"
begin

section \<open>ValueLens API v4: the merge engine of \<^verbatim>\<open>src/app.py\<close>\<close>

text \<open>
  The embedding follows \<^verbatim>\<open>src/app.py\<close> function by function.

  \<^item> Values that arrive from JSON are \<open>pyval\<close>; Python's \<open>int\<close> and \<open>float\<close> are both
    \<open>PNum\<close>, carrying the exact value of the number; \<open>inf\<close> and \<open>nan\<close> are outside the
    model. Comparisons are exact. The float operations whose result depends on binary
    rounding (the quotient behind shares outstanding, and the quotient, power,
    difference and product of \<open>calc_cagr\<close>) are operations of the \<open>platform\<close>, a
    parameter: every theorem holds for every platform, IEEE double arithmetic included.
  \<^item> A raised exception is \<open>Inl e\<close> of the result; a \<open>try/except\<close> of the source is the
    place where the model turns \<open>Inl\<close> into the handler's value.
  \<^item> The module-level \<open>cache\<close> dict and the requests sent upstream are the \<open>state\<close>;
    what the outside answers (HTTP replies, the yfinance library, the clock, the
    environment variable) is the \<open>world\<close> of one request.
  \<^item> Strings are byte strings. \<open>str.upper()\<close> replaces the 26 lowercase letters in a
    string of ASCII characters; on any other string it is the platform's Unicode case
    mapping. \<open>lower\<close> and \<open>strip\<close> are modelled on ASCII.
\<close>

subsection \<open>Python values\<close>

datatype pyval =
    PNone
  | PBool bool
  | PNum real
  | PStr string
  | PList "pyval list"
  | PDict "(string \<times> pyval) list"

type_synonym pydict = "(string \<times> pyval) list"

datatype error = TypeError | ZeroDivisionError | AttributeError | ValueError | RequestException

fun on_success :: "error + 'a \<Rightarrow> ('a \<Rightarrow> error + 'b) \<Rightarrow> error + 'b" where
  "on_success (Inl e) f = Inl e"
| "on_success (Inr x) f = f x"

text \<open>Truthiness, as \<^verbatim>\<open>if x:\<close> and \<^verbatim>\<open>not x\<close> see it.\<close>

fun truthy :: "pyval \<Rightarrow> bool" where
  "truthy PNone = False"
| "truthy (PBool b) = b"
| "truthy (PNum x) = (x \<noteq> 0)"
| "truthy (PStr s) = (s \<noteq> [])"
| "truthy (PList xs) = (xs \<noteq> [])"
| "truthy (PDict kvs) = (kvs \<noteq> [])"

text \<open>
  The values Python compares and divides as numbers: \<open>int\<close>, \<open>float\<close> and \<open>bool\<close>
  (\<open>True\<close> is 1). An ordering comparison with a number, or a division, of anything else
  raises \<open>TypeError\<close>.
\<close>

fun as_number :: "pyval \<Rightarrow> real option" where
  "as_number (PNum x) = Some x"
| "as_number (PBool b) = Some (if b then 1 else 0)"
| "as_number _ = None"

definition number :: "pyval \<Rightarrow> error + real" where
  "number v = (case as_number v of None \<Rightarrow> Inl TypeError | Some x \<Rightarrow> Inr x)"

text \<open>\<^verbatim>\<open>d.get(k, default)\<close> on a dict; on any other value it raises \<open>AttributeError\<close>.\<close>

definition dict_get :: "pydict \<Rightarrow> string \<Rightarrow> pyval \<Rightarrow> pyval" where
  "dict_get d k dflt = (case map_of d k of Some v \<Rightarrow> v | None \<Rightarrow> dflt)"

definition attr_get :: "pyval \<Rightarrow> string \<Rightarrow> pyval \<Rightarrow> error + pyval" where
  "attr_get v k dflt = (case v of PDict d \<Rightarrow> Inr (dict_get d k dflt) | _ \<Rightarrow> Inl AttributeError)"

text \<open>
  Rounding a number to \<open>ndigits\<close> decimals, a tie going to the even neighbour. This is
  \<^verbatim>\<open>round(x, 0)\<close> on an integer and on a float of integer size (below \<open>2 ^ 53\<close>), and the
  decimal step of \<^verbatim>\<open>round(x, ndigits)\<close> on the exact value of the double \<open>x\<close>.
\<close>

definition round_half_even :: "real \<Rightarrow> int" where
  "round_half_even x =
     (let f = \<lfloor>x\<rfloor>; r = x - of_int f
      in if r < 1 / 2 then f else if 1 / 2 < r then f + 1 else if even f then f else f + 1)"

definition py_round :: "real \<Rightarrow> nat \<Rightarrow> real" where
  "py_round x ndigits = of_int (round_half_even (x * 10 ^ ndigits)) / 10 ^ ndigits"

text \<open>
  What the interpreter and the machine compute and the source does not spell out.
  \<^item> \<open>truediv x y\<close> is \<^verbatim>\<open>x / y\<close> for \<open>y \<noteq> 0\<close>, \<open>float_sub\<close> and \<open>float_mul\<close> are \<^verbatim>\<open>x - y\<close> and
    \<^verbatim>\<open>x * y\<close> on floats, \<open>float_pow\<close> is \<^verbatim>\<open>math.pow\<close>: each returns a double, the
    operands being converted to doubles first where they are not.
  \<^item> \<open>nearest x\<close> is the double nearest to the decimal \<open>x\<close>: what the literal \<^verbatim>\<open>41.4\<close>
    denotes, and the last step of \<^verbatim>\<open>round\<close>.
  \<^item> \<open>str_upper\<close> is \<^verbatim>\<open>str.upper()\<close> on a string that has a character outside ASCII.
\<close>

record platform =
  truediv :: "real \<Rightarrow> real \<Rightarrow> real"
  float_pow :: "real \<Rightarrow> real \<Rightarrow> real"
  float_sub :: "real \<Rightarrow> real \<Rightarrow> real"
  float_mul :: "real \<Rightarrow> real \<Rightarrow> real"
  nearest :: "real \<Rightarrow> real"
  str_upper :: "string \<Rightarrow> string"

text \<open>
  \<^verbatim>\<open>round(x, ndigits)\<close> on a float: the exact value of the double \<open>x\<close> is rounded to
  \<open>ndigits\<close> decimals, a tie going to the even neighbour, and the decimal is converted
  to the nearest double.
\<close>

definition float_round :: "platform \<Rightarrow> real \<Rightarrow> nat \<Rightarrow> real" where
  "float_round pf x ndigits = nearest pf (py_round x ndigits)"

subsection \<open>Strings\<close>

definition upper_char :: "char \<Rightarrow> char" where
  "upper_char c =
     (case map_of (zip ''abcdefghijklmnopqrstuvwxyz'' ''ABCDEFGHIJKLMNOPQRSTUVWXYZ'') c of
        Some u \<Rightarrow> u | None \<Rightarrow> c)"

definition lower_char :: "char \<Rightarrow> char" where
  "lower_char c =
     (case map_of (zip ''ABCDEFGHIJKLMNOPQRSTUVWXYZ'' ''abcdefghijklmnopqrstuvwxyz'') c of
        Some u \<Rightarrow> u | None \<Rightarrow> c)"

definition is_ascii :: "char \<Rightarrow> bool" where
  "is_ascii c = (\<not> digit7 c)"

text \<open>
  \<^verbatim>\<open>s.upper()\<close>. Unicode maps some characters outside ASCII to ASCII letters (the long
  s to \<open>S\<close>) or to several characters, so only a string of ASCII characters is mapped by
  the table.
\<close>

definition upper :: "platform \<Rightarrow> string \<Rightarrow> string" where
  "upper pf s = (if list_all is_ascii s then map upper_char s else str_upper pf s)"

definition lower :: "string \<Rightarrow> string" where
  "lower s = map lower_char s"

definition is_space :: "char \<Rightarrow> bool" where
  "is_space c = (c \<in> set [CHR 0x09, CHR 0x0A, CHR 0x0B, CHR 0x0C, CHR 0x0D,
                            CHR 0x1C, CHR 0x1D, CHR 0x1E, CHR 0x1F, CHR 0x20])"

definition strip :: "string \<Rightarrow> string" where
  "strip s = rev (dropWhile is_space (rev (dropWhile is_space s)))"

text \<open>
  \<^verbatim>\<open>s.replace(old, "")\<close>: every occurrence of \<open>old\<close>, found left to right without overlap,
  is deleted, wherever it stands in \<open>s\<close>.
\<close>

function replace_del :: "string \<Rightarrow> string \<Rightarrow> string" where
  "replace_del old [] = []"
| "replace_del old (c # cs) =
     (if old \<noteq> [] \<and> take (length old) (c # cs) = old
      then replace_del old (drop (length old) (c # cs))
      else c # replace_del old cs)"
  by pat_completeness auto
termination
  by (relation "measure (\<lambda>(old, s). length s)") (auto simp: Suc_diff_le)

text \<open>\<^verbatim>\<open>sep.join(xs)\<close>.\<close>

fun join :: "string \<Rightarrow> string list \<Rightarrow> string" where
  "join sep [] = []"
| "join sep [x] = x"
| "join sep (x # y # ys) = x @ sep @ join sep (y # ys)"

text \<open>\<^verbatim>\<open>symbol.replace(".NS", "").replace(".BO", "")\<close>, as all four call sites write it.\<close>

definition clean_symbol :: "string \<Rightarrow> string" where
  "clean_symbol symbol = replace_del ''.BO'' (replace_del ''.NS'' symbol)"

text \<open>Line 269: \<^verbatim>\<open>sym = symbol.upper().replace(".NS", "").replace(".BO", "")\<close>.\<close>

definition normalize_symbol :: "platform \<Rightarrow> string \<Rightarrow> string" where
  "normalize_symbol pf symbol = clean_symbol (upper pf symbol)"

text \<open>
  The normalisation in the words of the specification, for comparison with the code:
  uppercase, then strip a trailing \<open>.NS\<close> and a trailing \<open>.BO\<close>, and nothing else.
\<close>

definition strip_suffix :: "string \<Rightarrow> string \<Rightarrow> string" where
  "strip_suffix suf s =
     (if length suf \<le> length s \<and> drop (length s - length suf) s = suf
      then take (length s - length suf) s else s)"

definition spec_normalize_symbol :: "platform \<Rightarrow> string \<Rightarrow> string" where
  "spec_normalize_symbol pf symbol = strip_suffix ''.BO'' (strip_suffix ''.NS'' (upper pf symbol))"

subsection \<open>The metric calculator\<close>

text \<open>
  \<^verbatim>\<open>not v or v <= 0\<close> for one endpoint: \<open>Inr None\<close> when the test holds (the value is falsy
  or not positive), \<open>Inr (Some x)\<close> with the number otherwise, \<open>TypeError\<close> when a truthy
  value is not a number.
\<close>

definition positive_value :: "pyval \<Rightarrow> error + real option" where
  "positive_value v =
     (if \<not> truthy v then Inr None
      else on_success (number v) (\<lambda>x. Inr (if x \<le> 0 then None else Some x)))"

text \<open>
  \<open>calc_cagr\<close>, lines 206 to 214. The window \<open>n\<close> is a natural number (a negative \<open>n\<close>
  would index from the end of the list). \<open>b\<close> is tested before \<open>a\<close>, as in the source;
  \<open>1 / n\<close> raises \<open>ZeroDivisionError\<close> for \<open>n = 0\<close>. Line 214 is computed in floats:
  \<^verbatim>\<open>round((math.pow(a / b, 1 / n) - 1) * 100, 1)\<close>.
\<close>

definition calc_cagr :: "platform \<Rightarrow> pydict list \<Rightarrow> string \<Rightarrow> nat \<Rightarrow> error + real option" where
  "calc_cagr pf arr field n =
     (if length arr < n + 1 then Inr None
      else
        let a = dict_get (arr ! 0) field (PNum 0);
            b = dict_get (arr ! n) field (PNum 0)
        in on_success (positive_value b) (\<lambda>bo.
             case bo of
               None \<Rightarrow> Inr None
             | Some bv \<Rightarrow>
                 on_success (positive_value a) (\<lambda>ao.
                   case ao of
                     None \<Rightarrow> Inr None
                   | Some av \<Rightarrow>
                       if n = 0 then Inl ZeroDivisionError
                       else Inr (Some (float_round pf
                              (float_mul pf
                                 (float_sub pf
                                    (float_pow pf (truediv pf av bv) (truediv pf 1 (real n))) 1)
                                 100) 1)))))"

text \<open>A series whose field values are all numbers, as the dicts \<open>calc_cagr\<close> reads.\<close>

definition numeric_series :: "(string \<times> real) list list \<Rightarrow> pydict list" where
  "numeric_series ys = map (map (\<lambda>(k, x). (k, PNum x))) ys"

subsection \<open>What the providers hand to the merge\<close>

text \<open>
  The dict \<open>fetch_isma\<close> builds, lines 72 to 87. Its values are whatever the JSON
  payload holds under each key (\<open>d.get(key, default)\<close>): nothing converts or checks them.
\<close>

record isma_quote =
  isma_cmp :: pyval
  isma_mcap_raw :: pyval
  isma_pe :: pyval
  isma_eps :: pyval
  isma_sector :: pyval
  isma_industry :: pyval
  isma_name :: pyval
  isma_change :: pyval
  isma_changePct :: pyval
  isma_yearHigh :: pyval
  isma_yearLow :: pyval
  isma_volume :: pyval
  isma_bookValue :: pyval
  isma_dividendYield :: pyval

text \<open>
  One yearly entry \<^verbatim>\<open>{"year": ..., "rev": ..., "pat": ...}\<close> as both financial adapters
  append it: the year is a string, revenue and profit are floats (\<open>round(x / 1e7, 2)\<close>).
\<close>

record year_entry =
  y_year :: string
  y_rev :: real
  y_pat :: real

text \<open>\<^verbatim>\<open>{"years": years, "shares": shares}\<close>, lines 161 and 199.\<close>

record financials =
  fin_years :: "year_entry list"
  fin_shares :: pyval

definition year_dict :: "year_entry \<Rightarrow> pydict" where
  "year_dict y = [(''year'', PStr (y_year y)), (''rev'', PNum (y_rev y)), (''pat'', PNum (y_pat y))]"

text \<open>The merged record, lines 301 to 328; \<open>_source\<close> is flattened into three fields.\<close>

record merged =
  m_sym :: string
  m_name :: pyval
  m_sec :: pyval
  m_industry :: pyval
  m_cmp :: pyval
  m_shr :: real
  m_mcapCr :: real
  m_pe :: pyval
  m_eps :: pyval
  m_pat :: real
  m_rev :: real
  m_r3 :: "real option"
  m_r5 :: "real option"
  m_p3 :: "real option"
  m_p5 :: "real option"
  m_dayChange :: pyval
  m_dayChangePct :: pyval
  m_yearHigh :: pyval
  m_yearLow :: pyval
  m_bookValue :: pyval
  m_dividendYield :: pyval
  source_realtime :: string
  source_financials :: string
  source_years_available :: nat

text \<open>One search result, lines 106 to 110 and 255 to 259.\<close>

record search_hit =
  hit_sym :: pyval
  hit_name :: pyval
  hit_sec :: pyval

text \<open>One batch quote summary, lines 362 to 369.\<close>

record quote_summary =
  quote_sym :: pyval
  quote_name :: pyval
  quote_cmp :: pyval
  quote_pe :: pyval
  quote_mcapCr :: real
  quote_dayChangePct :: pyval

subsection \<open>Cache, upstream requests, and the outside world\<close>

text \<open>What a handler passes to \<open>jsonify\<close> and what \<open>set_cache\<close> stores.\<close>

datatype payload =
    Record merged
  | Hits "search_hit list"
  | Quotes "quote_summary list"

text \<open>\<^verbatim>\<open>if c:\<close> on a payload: a dict with keys is truthy, a list is truthy when not empty.\<close>

fun truthy_payload :: "payload \<Rightarrow> bool" where
  "truthy_payload (Record r) = True"
| "truthy_payload (Hits hs) = (hs \<noteq> [])"
| "truthy_payload (Quotes qs) = (qs \<noteq> [])"

record entry =
  entry_d :: payload
  entry_t :: real

text \<open>A request sent to a provider, with the symbol, ticker or query it carries.\<close>

datatype upstream =
    ISMA_stock string
  | ISMA_search string
  | ISMA_list string
  | EODHD_fundamentals string
  | YF_financials string
  | YF_info string

record state =
  cache :: "string \<rightharpoonup> entry"
  requests :: "upstream list"

text \<open>
  What \<open>requests.get\<close> gives: an exception, or a status code with a body; the body is
  \<open>None\<close> when \<open>resp.json()\<close> raises.
\<close>

datatype http = Transport_failure | Http_reply nat "pyval option"

text \<open>
  The outside of one request. \<open>now_read\<close> and \<open>now_write\<close> are \<open>time.time()\<close> as
  \<open>cached\<close> and \<open>set_cache\<close> read it. \<open>eodhd_statements\<close> and \<open>yf_statements\<close> stand for
  the request-and-parse bodies of \<open>fetch_eodhd_financials\<close> (lines 173 to 202) and
  \<open>fetch_yfinance_financials\<close> (lines 121 to 165), which go through the HTTP payload
  and a pandas frame: \<open>None\<close> is their \<open>return None\<close>, also from the \<open>except\<close> branch.
  \<open>yf_info\<close> is \<open>yf.Ticker(t).info\<close>, \<open>None\<close> when it raises.
\<close>

record world =
  now_read :: real
  now_write :: real
  EODHD_KEY :: string
  isma_stock :: "string \<Rightarrow> http"
  isma_search :: "string \<Rightarrow> http"
  isma_list :: "string \<Rightarrow> http"
  eodhd_statements :: "string \<Rightarrow> financials option"
  yf_statements :: "string \<Rightarrow> financials option"
  yf_info :: "string \<Rightarrow> pyval option"

definition sent :: "upstream \<Rightarrow> state \<Rightarrow> state" where
  "sent r s = s\<lparr>requests := requests s @ [r]\<rparr>"

text \<open>Lines 39 to 53.\<close>

definition TTL :: "string \<Rightarrow> real" where
  "TTL ttl_type =
     (if ttl_type = ''quote'' then 300
      else if ttl_type = ''financials'' then 86400
      else if ttl_type = ''search'' then 86400
      else 300)"

definition cached :: "real \<Rightarrow> string \<Rightarrow> string \<Rightarrow> state \<Rightarrow> payload option \<times> state" where
  "cached now key ttl_type s =
     (case cache s key of
        None \<Rightarrow> (None, s)
      | Some e \<Rightarrow>
          if now - entry_t e > TTL ttl_type
          then (None, s\<lparr>cache := (cache s)(key := None)\<rparr>)
          else (Some (entry_d e), s))"

definition set_cache :: "real \<Rightarrow> string \<Rightarrow> payload \<Rightarrow> state \<Rightarrow> state" where
  "set_cache now key data s = s\<lparr>cache := (cache s)(key \<mapsto> \<lparr>entry_d = data, entry_t = now\<rparr>)\<rparr>"

text \<open>\<^verbatim>\<open>c = cached(...)\<close> followed by \<^verbatim>\<open>if c: return jsonify(c)\<close>: the payload returned, if any.\<close>

definition cache_hit :: "payload option \<Rightarrow> payload option" where
  "cache_hit c = (case c of None \<Rightarrow> None | Some p \<Rightarrow> if truthy_payload p then Some p else None)"

subsection \<open>Provider adapters\<close>

text \<open>\<open>fetch_isma\<close> from the reply on, lines 65 to 87, inside its \<open>try\<close>.\<close>

definition isma_quote_of :: "http \<Rightarrow> isma_quote option" where
  "isma_quote_of resp =
     (case resp of
        Transport_failure \<Rightarrow> None
      | Http_reply code body \<Rightarrow>
          if code \<noteq> 200 then None
          else case body of
            None \<Rightarrow> None
          | Some (PDict data) \<Rightarrow>
              if dict_get data ''status'' PNone \<noteq> PStr ''success'' then None
              else (case dict_get data ''data'' (PDict []) of
                PDict d \<Rightarrow> Some \<lparr>
                  isma_cmp = dict_get d ''last_price'' (PNum 0),
                  isma_mcap_raw = dict_get d ''market_cap'' (PNum 0),
                  isma_pe = dict_get d ''pe_ratio'' (PNum 0),
                  isma_eps = dict_get d ''earnings_per_share'' (PNum 0),
                  isma_sector = dict_get d ''sector'' (PStr []),
                  isma_industry = dict_get d ''industry'' (PStr []),
                  isma_name = dict_get d ''company_name'' (PStr []),
                  isma_change = dict_get d ''change'' (PNum 0),
                  isma_changePct = dict_get d ''percent_change'' (PNum 0),
                  isma_yearHigh = dict_get d ''year_high'' (PNum 0),
                  isma_yearLow = dict_get d ''year_low'' (PNum 0),
                  isma_volume = dict_get d ''volume'' (PNum 0),
                  isma_bookValue = dict_get d ''book_value'' (PNum 0),
                  isma_dividendYield = dict_get d ''dividend_yield'' (PNum 0)\<rparr>
              | _ \<Rightarrow> None)
          | Some _ \<Rightarrow> None)"

definition fetch_isma :: "world \<Rightarrow> string \<Rightarrow> state \<Rightarrow> isma_quote option \<times> state" where
  "fetch_isma w symbol s =
     (let clean = clean_symbol symbol
      in (isma_quote_of (isma_stock w clean), sent (ISMA_stock clean) s))"

text \<open>Lines 169 to 202: without a key the adapter returns before any request.\<close>

definition fetch_eodhd_financials :: "world \<Rightarrow> string \<Rightarrow> state \<Rightarrow> financials option \<times> state" where
  "fetch_eodhd_financials w symbol s =
     (if EODHD_KEY w = [] then (None, s)
      else
        let ticker = clean_symbol symbol @ ''.NSE''
        in (eodhd_statements w ticker, sent (EODHD_fundamentals ticker) s))"

text \<open>Lines 119 to 165.\<close>

definition fetch_yfinance_financials :: "world \<Rightarrow> string \<Rightarrow> state \<Rightarrow> financials option \<times> state" where
  "fetch_yfinance_financials w symbol s =
     (let ticker = (if CHR ''.'' \<in> set symbol then symbol else symbol @ ''.NS'')
      in (yf_statements w ticker, sent (YF_financials ticker) s))"

subsection \<open>The full stock record\<close>

text \<open>
  The merge, lines 286 to 328. \<open>mcap_raw > 1e6\<close> and \<open>cmp > 0\<close> compare a payload value
  with a number, which raises \<open>TypeError\<close> unless the value is a number (\<open>number\<close>);
  \<open>mcap_cr > 0\<close> is only reached behind \<open>cmp > 0\<close> and cannot raise. The four growth
  rates are computed in the order of the dict literal. \<open>mcap_cr\<close> carries the exact
  quotient: line 308 rounds it to a whole number, and the division of line 294 is the
  platform's, which takes its operands as doubles. \<open>shr\<close> is line 294 followed by the
  \<open>round(shr_cr, 2)\<close> of line 307, which leaves the integer 0 of the \<open>else\<close> branch as it is.
\<close>

definition merge ::
  "platform \<Rightarrow> string \<Rightarrow> isma_quote option \<Rightarrow> financials option \<Rightarrow> string option
     \<Rightarrow> error + merged" where
  "merge pf symb isma fin fin_source =
     (let cmp = (case isma of Some q \<Rightarrow> isma_cmp q | None \<Rightarrow> PNum 0);
          mcap_raw = (case isma of Some q \<Rightarrow> isma_mcap_raw q | None \<Rightarrow> PNum 0)
      in on_success (number mcap_raw) (\<lambda>raw.
           let mcap_cr = (if raw > 1000000 then raw / 10000000 else raw);
               pe = (case isma of Some q \<Rightarrow> isma_pe q | None \<Rightarrow> PNum 0);
               eps = (case isma of Some q \<Rightarrow> isma_eps q | None \<Rightarrow> PNum 0)
           in on_success (number cmp) (\<lambda>price.
                let shr = (if price > 0 \<and> mcap_cr > 0
                           then float_round pf (truediv pf mcap_cr price) 2 else 0);
                    years = (case fin of Some f \<Rightarrow> fin_years f | None \<Rightarrow> []);
                    latest_rev = (case years of y # _ \<Rightarrow> y_rev y | [] \<Rightarrow> 0);
                    latest_pat = (case years of y # _ \<Rightarrow> y_pat y | [] \<Rightarrow> 0);
                    arr = map year_dict years
                in on_success (calc_cagr pf arr ''rev'' 3) (\<lambda>r3.
                   on_success (calc_cagr pf arr ''rev'' 5) (\<lambda>r5.
                   on_success (calc_cagr pf arr ''pat'' 3) (\<lambda>p3.
                   on_success (calc_cagr pf arr ''pat'' 5) (\<lambda>p5.
                     Inr \<lparr>
                       m_sym = symb,
                       m_name = (case isma of Some q \<Rightarrow> isma_name q | None \<Rightarrow> PStr symb),
                       m_sec = (case isma of Some q \<Rightarrow> isma_sector q | None \<Rightarrow> PStr ''Unknown''),
                       m_industry = (case isma of Some q \<Rightarrow> isma_industry q | None \<Rightarrow> PStr []),
                       m_cmp = cmp,
                       m_shr = shr,
                       m_mcapCr = py_round mcap_cr 0,
                       m_pe = pe,
                       m_eps = eps,
                       m_pat = latest_pat,
                       m_rev = latest_rev,
                       m_r3 = r3,
                       m_r5 = r5,
                       m_p3 = p3,
                       m_p5 = p5,
                       m_dayChange = (case isma of Some q \<Rightarrow> isma_change q | None \<Rightarrow> PNum 0),
                       m_dayChangePct = (case isma of Some q \<Rightarrow> isma_changePct q | None \<Rightarrow> PNum 0),
                       m_yearHigh = (case isma of Some q \<Rightarrow> isma_yearHigh q | None \<Rightarrow> PNum 0),
                       m_yearLow = (case isma of Some q \<Rightarrow> isma_yearLow q | None \<Rightarrow> PNum 0),
                       m_bookValue = (case isma of Some q \<Rightarrow> isma_bookValue q | None \<Rightarrow> PNum 0),
                       m_dividendYield = (case isma of Some q \<Rightarrow> isma_dividendYield q | None \<Rightarrow> PNum 0),
                       source_realtime = (case isma of Some q \<Rightarrow> ''isma'' | None \<Rightarrow> ''none''),
                       source_financials = (case fin_source of Some src \<Rightarrow> src | None \<Rightarrow> ''none''),
                       source_years_available = length years\<rparr>)))))))"

text \<open>
  Lines 278 to 284: the financial statements, EODHD first. A \<open>financials\<close> dict has two
  keys and is truthy, so \<open>not fin\<close> holds exactly for \<open>None\<close>.
\<close>

definition fetch_financials ::
  "world \<Rightarrow> string \<Rightarrow> state \<Rightarrow> (financials option \<times> string option) \<times> state" where
  "fetch_financials w symb s =
     (let (fin, s1) = fetch_eodhd_financials w symb s;
          fin_source = (if fin \<noteq> None then Some ''eodhd'' else None)
      in if fin = None
         then
           let (fin2, s2) = fetch_yfinance_financials w symb s1
           in ((fin2, if fin2 \<noteq> None then Some ''yfinance'' else None), s2)
         else ((fin, fin_source), s1))"

text \<open>Lines 275 to 337: \<open>fullstock\<close> after a cache miss.\<close>

definition fullstock_miss ::
  "platform \<Rightarrow> world \<Rightarrow> string \<Rightarrow> string \<Rightarrow> state \<Rightarrow> (error + payload) \<times> state" where
  "fullstock_miss pf w symb ck s =
     (let (isma, s1) = fetch_isma w symb s;
          ((fin, fin_source), s2) = fetch_financials w symb s1
      in case merge pf symb isma fin fin_source of
           Inl e \<Rightarrow> (Inl e, s2)
         | Inr result \<Rightarrow> (Inr (Record result), set_cache (now_write w) ck (Record result) s2))"

text \<open>The cache keys of lines 240 and 270.\<close>

definition full_key :: "string \<Rightarrow> string" where
  "full_key symb = ''full:'' @ symb"

definition search_key :: "string \<Rightarrow> string" where
  "search_key q = ''search:'' @ lower q"

text \<open>\<open>fullstock\<close>, lines 267 to 337. An exception leaves the handler as \<open>Inl\<close>.\<close>

definition fullstock ::
  "platform \<Rightarrow> world \<Rightarrow> string \<Rightarrow> state \<Rightarrow> (error + payload) \<times> state" where
  "fullstock pf w symbol s =
     (let symb = normalize_symbol pf symbol;
          ck = full_key symb;
          (c, s1) = cached (now_read w) ck ''quote'' s
      in case cache_hit c of
           Some p \<Rightarrow> (Inr p, s1)
         | None \<Rightarrow> fullstock_miss pf w symb ck s1)"

subsection \<open>Search\<close>

text \<open>
  The list comprehension of \<open>search_isma\<close>, lines 105 to 112: \<open>r.get\<close> raises on a
  result that is not a dict.
\<close>

fun search_rows :: "pyval list \<Rightarrow> error + search_hit list" where
  "search_rows [] = Inr []"
| "search_rows (r # rs) =
     (case r of
        PDict d \<Rightarrow>
          on_success (search_rows rs) (\<lambda>hs.
            Inr (\<lparr>hit_sym = dict_get d ''symbol'' (PStr []),
                  hit_name = dict_get d ''company_name'' (PStr []),
                  hit_sec = PStr ''NSE''\<rparr> # hs))
      | _ \<Rightarrow> Inl AttributeError)"

text \<open>
  \<open>search_isma\<close> from the reply on, lines 99 to 115. A \<open>results\<close> value that is not a
  list cannot be sliced, or holds no dict: the \<open>except\<close> branch returns the empty list.
\<close>

definition search_hits_of :: "http \<Rightarrow> search_hit list" where
  "search_hits_of resp =
     (case resp of
        Transport_failure \<Rightarrow> []
      | Http_reply code body \<Rightarrow>
          if code \<noteq> 200 then []
          else case body of
            None \<Rightarrow> []
          | Some (PDict data) \<Rightarrow>
              if dict_get data ''status'' PNone \<noteq> PStr ''success'' then []
              else (case dict_get data ''results'' (PList []) of
                PList results \<Rightarrow>
                  (case search_rows (take 15 results) of Inl e \<Rightarrow> [] | Inr hs \<Rightarrow> hs)
              | _ \<Rightarrow> [])
          | Some _ \<Rightarrow> [])"

definition search_isma :: "world \<Rightarrow> string \<Rightarrow> state \<Rightarrow> search_hit list \<times> state" where
  "search_isma w query s = (search_hits_of (isma_search w query), sent (ISMA_search query) s)"

text \<open>Lines 249 to 261: the yfinance backup, inside its bare \<open>except\<close>.\<close>

definition yfinance_search ::
  "platform \<Rightarrow> world \<Rightarrow> string \<Rightarrow> state \<Rightarrow> search_hit list \<times> state" where
  "yfinance_search pf w q s =
     (let s1 = sent (YF_info (q @ ''.NS'')) s
      in case yf_info w (q @ ''.NS'') of
           None \<Rightarrow> ([], s1)
         | Some v \<Rightarrow>
             (case (if truthy v then v else PDict []) of
                PDict info \<Rightarrow>
                  if truthy (dict_get info ''regularMarketPrice'' PNone)
                  then ([\<lparr>hit_sym = PStr (upper pf q),
                          hit_name = dict_get info ''longName''
                                       (dict_get info ''shortName'' (PStr (upper pf q))),
                          hit_sec = dict_get info ''sector'' (PStr ''NSE'')\<rparr>], s1)
                  else ([], s1)
              | _ \<Rightarrow> ([], s1)))"

text \<open>\<open>search\<close>, lines 234 to 264; \<open>q_arg\<close> is the query parameter (\<open>""\<close> when absent).\<close>

definition search :: "platform \<Rightarrow> world \<Rightarrow> string \<Rightarrow> state \<Rightarrow> payload \<times> state" where
  "search pf w q_arg s =
     (let q = strip q_arg
      in if q = [] \<or> length q < 2 then (Hits [], s)
         else
           let ck = search_key q;
               (c, s1) = cached (now_read w) ck ''search'' s
           in case cache_hit c of
                Some p \<Rightarrow> (p, s1)
              | None \<Rightarrow>
                  let (results, s2) = search_isma w q s1;
                      (results2, s3) =
                        (if results = [] then yfinance_search pf w q s2 else (results, s2))
                  in (Hits results2, set_cache (now_write w) ck (Hits results2) s3))"

subsection \<open>Batch quotes\<close>

text \<open>\<^verbatim>\<open>for s in stocks\<close>: what the loop iterates over, \<open>TypeError\<close> when it cannot.\<close>

fun iterate :: "pyval \<Rightarrow> error + pyval list" where
  "iterate (PList xs) = Inr xs"
| "iterate (PStr cs) = Inr (map (\<lambda>c. PStr [c]) cs)"
| "iterate (PDict kvs) = Inr (map (\<lambda>kv. PStr (fst kv)) kvs)"
| "iterate _ = Inl TypeError"

text \<open>The dict of lines 362 to 369 for one element of the reply.\<close>

definition quote_of :: "pyval \<Rightarrow> error + quote_summary" where
  "quote_of s =
     (case s of
        PDict d \<Rightarrow>
          on_success (number (dict_get d ''market_cap'' (PNum 0))) (\<lambda>mc.
            Inr \<lparr>quote_sym = dict_get d ''symbol'' (PStr []),
                 quote_name = dict_get d ''company_name'' (PStr []),
                 quote_cmp = dict_get d ''last_price'' (PNum 0),
                 quote_pe = dict_get d ''pe_ratio'' (PNum 0),
                 quote_mcapCr = py_round (mc / 10000000) 0,
                 quote_dayChangePct = dict_get d ''percent_change'' (PNum 0)\<rparr>)
      | _ \<Rightarrow> Inl AttributeError)"

text \<open>
  The loop of lines 361 to 369 on the list \<open>results\<close>: it returns the list as it stands
  when the loop ends or an element raises, with the exception if there was one.
\<close>

fun map_stocks :: "pyval list \<Rightarrow> quote_summary list \<Rightarrow> quote_summary list \<times> error option" where
  "map_stocks [] results = (results, None)"
| "map_stocks (s # stocks) results =
     (case quote_of s of
        Inl e \<Rightarrow> (results, Some e)
      | Inr q \<Rightarrow> map_stocks stocks (results @ [q]))"

text \<open>
  The \<open>try\<close> block of \<open>batch_quotes\<close> from the reply on, lines 357 to 371: \<open>results\<close>
  after it, and the exception its \<open>except\<close> branch caught and logged, if any.
\<close>

definition batch_results :: "http \<Rightarrow> quote_summary list \<times> error option" where
  "batch_results resp =
     (case resp of
        Transport_failure \<Rightarrow> ([], Some RequestException)
      | Http_reply code body \<Rightarrow>
          if code = 200
          then (case body of
                  None \<Rightarrow> ([], Some ValueError)
                | Some data \<Rightarrow>
                    (case attr_get data ''stocks'' (PList []) of
                       Inl e \<Rightarrow> ([], Some e)
                     | Inr stocks \<Rightarrow>
                         (case iterate stocks of
                            Inl e \<Rightarrow> ([], Some e)
                          | Inr items \<Rightarrow> map_stocks items [])))
          else ([], None))"

text \<open>
  \<open>batch_quotes\<close>, lines 340 to 374, for a request body whose \<open>symbols\<close> is a list of
  strings.
\<close>

definition batch_key :: "string list \<Rightarrow> string" where
  "batch_key symbols = ''batch:'' @ join ''_'' (sort (take 20 symbols))"

definition batch_quotes :: "world \<Rightarrow> string list \<Rightarrow> state \<Rightarrow> payload \<times> state" where
  "batch_quotes w symbols s =
     (if symbols = [] then (Quotes [], s)
      else
        let ck = batch_key symbols;
            (c, s1) = cached (now_read w) ck ''quote'' s
        in case cache_hit c of
             Some p \<Rightarrow> (p, s1)
           | None \<Rightarrow>
               let syms_str = join '','' (map clean_symbol (take 20 symbols));
                   s2 = sent (ISMA_list syms_str) s1;
                   results = fst (batch_results (isma_list w syms_str))
               in (Quotes results, set_cache (now_write w) ck (Quotes results) s2))"

subsection \<open>Views of the handlers used in the statements\<close>

text \<open>
  What \<^verbatim>\<open>c = cached(key, ttl_type)\<close> followed by \<^verbatim>\<open>if c:\<close> lets a handler return at the
  time \<open>now\<close>: \<open>None\<close> is a cache miss.
\<close>

definition cache_lookup :: "real \<Rightarrow> string \<Rightarrow> string \<Rightarrow> state \<Rightarrow> payload option" where
  "cache_lookup now key ttl_type s = cache_hit (fst (cached now key ttl_type s))"

text \<open>The record inside a handler's response, when the response is one.\<close>

fun merged_of :: "error + payload \<Rightarrow> merged option" where
  "merged_of (Inr (Record r)) = Some r"
| "merged_of _ = None"

text \<open>A handler's response when the merge returns or raises.\<close>

definition response :: "error + merged \<Rightarrow> error + payload" where
  "response r = (case r of Inl e \<Rightarrow> Inl e | Inr m \<Rightarrow> Inr (Record m))"

text \<open>The ticker \<open>fetch_yfinance_financials\<close> asks for, line 122.\<close>

definition yfinance_ticker :: "string \<Rightarrow> string" where
  "yfinance_ticker symbol = (if CHR ''.'' \<in> set symbol then symbol else symbol @ ''.NS'')"

text \<open>
  The summaries of the elements of a reply up to the first one that cannot be mapped:
  what the loop of \<open>batch_quotes\<close> has appended when it ends or is left by an exception.
\<close>

fun mapped_prefix :: "pyval list \<Rightarrow> quote_summary list" where
  "mapped_prefix [] = []"
| "mapped_prefix (s # stocks) =
     (case quote_of s of Inl e \<Rightarrow> [] | Inr q \<Rightarrow> q # mapped_prefix stocks)"


subsection \<open>Concrete inputs\<close>

text \<open>
  A platform without rounding error, whose case mapping leaves other strings alone. It
  stands for the doubles wherever every intermediate result is a number that doubles
  represent exactly, as in the inputs below with a price of 100.
\<close>

definition exact_platform :: platform where
  "exact_platform =
     \<lparr>truediv = (\<lambda>x y. x / y), float_pow = (\<lambda>x y. x powr y), float_sub = (\<lambda>x y. x - y),
      float_mul = (\<lambda>x y. x * y), nearest = (\<lambda>x. x), str_upper = (\<lambda>s. s)\<rparr>"

text \<open>The service right after start: nothing cached, nothing requested.\<close>

definition empty_state :: state where
  "empty_state = \<lparr>cache = Map.empty, requests = []\<rparr>"

text \<open>Every provider fails: no reply from ISMA, no EODHD key, nothing from yfinance.\<close>

definition world_down :: world where
  "world_down =
     \<lparr>now_read = 1000, now_write = 1001, EODHD_KEY = [],
      isma_stock = (\<lambda>x. Transport_failure),
      isma_search = (\<lambda>x. Transport_failure),
      isma_list = (\<lambda>x. Transport_failure),
      eodhd_statements = (\<lambda>x. None),
      yf_statements = (\<lambda>x. None),
      yf_info = (\<lambda>x. None)\<rparr>"

text \<open>A 200 reply \<^verbatim>\<open>{"status": "success", "data": d}\<close>.\<close>

definition isma_success :: "pydict \<Rightarrow> http" where
  "isma_success d = Http_reply 200 (Some (PDict [(''status'', PStr ''success''), (''data'', PDict d)]))"

text \<open>ISMA answers every symbol with the data \<open>d\<close>; the other providers are down.\<close>

definition world_isma :: "pydict \<Rightarrow> world" where
  "world_isma d = world_down\<lparr>isma_stock := (\<lambda>x. isma_success d)\<rparr>"

text \<open>What the merge gives when no provider has data, lines 287 to 328 with \<open>isma = fin = None\<close>.\<close>

definition empty_record :: "string \<Rightarrow> merged" where
  "empty_record symb =
     \<lparr>m_sym = symb, m_name = PStr symb, m_sec = PStr ''Unknown'', m_industry = PStr [],
      m_cmp = PNum 0, m_shr = 0, m_mcapCr = 0, m_pe = PNum 0, m_eps = PNum 0,
      m_pat = 0, m_rev = 0, m_r3 = None, m_r5 = None, m_p3 = None, m_p5 = None,
      m_dayChange = PNum 0, m_dayChangePct = PNum 0, m_yearHigh = PNum 0, m_yearLow = PNum 0,
      m_bookValue = PNum 0, m_dividendYield = PNum 0,
      source_realtime = ''none'', source_financials = ''none'', source_years_available = 0\<rparr>"

text \<open>Two years of statements, and a share count as yfinance reports it.\<close>

definition sample_financials :: financials where
  "sample_financials =
     \<lparr>fin_years = [\<lparr>y_year = ''2024'', y_rev = 200, y_pat = 20\<rparr>,
                   \<lparr>y_year = ''2023'', y_rev = 150, y_pat = 15\<rparr>],
      fin_shares = PNum 123456789\<rparr>"




text \<open>No EODHD key; yfinance has statements.\<close>

definition world_yfinance :: world where
  "world_yfinance = world_down\<lparr>yf_statements := (\<lambda>x. Some sample_financials)\<rparr>"

text \<open>The world in which both financial providers report the share count \<open>v\<close>.\<close>

definition with_shares :: "pyval \<Rightarrow> world \<Rightarrow> world" where
  "with_shares v w =
     w\<lparr>eodhd_statements := (\<lambda>t. map_option (\<lambda>f. f\<lparr>fin_shares := v\<rparr>) (eodhd_statements w t)),
       yf_statements := (\<lambda>t. map_option (\<lambda>f. f\<lparr>fin_shares := v\<rparr>) (yf_statements w t))\<rparr>"

text \<open>ISMA quotes a price of 100 and the market cap \<open>mc\<close>; yfinance has statements.\<close>

definition world_quoted :: "real \<Rightarrow> world" where
  "world_quoted mc =
     world_yfinance\<lparr>isma_stock :=
       (\<lambda>x. isma_success [(''last_price'', PNum 100), (''market_cap'', PNum mc)])\<rparr>"

text \<open>
  The batch endpoint answers with two stocks, the second with a \<open>null\<close> market cap;
  everything else is down.
\<close>

definition world_partial :: world where
  "world_partial =
     world_down\<lparr>isma_list := (\<lambda>x. Http_reply 200 (Some (PDict [(''stocks'', PList
       [PDict [(''symbol'', PStr ''A''), (''market_cap'', PNum 10000000)],
        PDict [(''symbol'', PStr ''B''), (''market_cap'', PNone)]])])))\<rparr>"

text \<open>Twenty-five symbols, some with an exchange suffix.\<close>

definition symbols25 :: "string list" where
  "symbols25 =
     [''TCS.NS'', ''INFY.BO'', ''WIPRO'', ''HDFC'', ''ICICI'',
      ''SBIN'', ''ITC'', ''LT'', ''ONGC'', ''NTPC'',
      ''BHEL'', ''GAIL'', ''IOC'', ''BPCL'', ''HCL'',
      ''TECHM'', ''CIPLA'', ''LUPIN'', ''TITAN'', ''MARUTI'',
      ''BAJAJ'', ''HERO'', ''TATA'', ''ADANI'', ''VEDL'']"

section \<open>Properties\<close>

subsection \<open>Rounding and the metric calculator\<close>

lemma round_half_even_between:
  assumes "real_of_int k - 1 / 2 < x" and "x < real_of_int k + 1 / 2"
  shows "round_half_even x = k"
proof (cases "real_of_int k \<le> x")
  case True
  then have "\<lfloor>x\<rfloor> = k" using assms(2) by (simp add: floor_eq_iff)
  then show ?thesis using assms(2) by (simp add: round_half_even_def Let_def)
next
  case False
  then have "\<lfloor>x\<rfloor> = k - 1" using assms(1) by (simp add: floor_eq_iff)
  then show ?thesis using assms(1) by (simp add: round_half_even_def Let_def)
qed

lemma py_round_between:
  assumes "(real_of_int k - 1 / 2) / 10 ^ n < x" and "x < (real_of_int k + 1 / 2) / 10 ^ n"
  shows "py_round x n = of_int k / 10 ^ n"
proof -
  have "real_of_int k - 1 / 2 < x * 10 ^ n" "x * 10 ^ n < real_of_int k + 1 / 2"
    using assms by (simp_all add: pos_divide_less_eq pos_less_divide_eq)
  then have "round_half_even (x * 10 ^ n) = k" by (rule round_half_even_between)
  then show ?thesis by (simp add: py_round_def)
qed

lemma round_half_even_of_int: "round_half_even (of_int k) = k"
  by (simp add: round_half_even_def)

lemma py_round_of_int: "py_round (of_int k) 0 = of_int k"
  by (simp add: py_round_def round_half_even_of_int)

lemma map_of_numeric:
  "map_of (map (\<lambda>(k, x). (k, PNum x)) d) f = map_option PNum (map_of d f)"
  by (induction d) auto

lemma positive_value_num: "positive_value (PNum x) = Inr (if x \<le> 0 then None else Some x)"
  by (simp add: positive_value_def number_def)

lemma dict_get_numeric:
  "dict_get (map (\<lambda>(k, x). (k, PNum x)) d) f (PNum 0) =
     PNum (case map_of d f of Some x \<Rightarrow> x | None \<Rightarrow> 0)"
  by (simp add: dict_get_def map_of_numeric split: option.splits)

text \<open>
  \<open>calc_cagr\<close> on a series of numbers, every window included: an absent field reads as
  0, and the window 0 raises once both endpoints have passed the test.
\<close>

lemma calc_cagr_numeric:
  "calc_cagr pf (numeric_series ys) f n =
     (let a = (case map_of (ys ! 0) f of Some x \<Rightarrow> x | None \<Rightarrow> 0);
          b = (case map_of (ys ! n) f of Some x \<Rightarrow> x | None \<Rightarrow> 0)
      in if length ys < n + 1 then Inr None
         else if b \<le> 0 \<or> a \<le> 0 then Inr None
         else if n = 0 then Inl ZeroDivisionError
         else Inr (Some (float_round pf
                (float_mul pf
                   (float_sub pf (float_pow pf (truediv pf a b) (truediv pf 1 (real n))) 1)
                   100) 1)))"
proof (cases "length ys < n + 1")
  case True
  then show ?thesis by (simp add: calc_cagr_def numeric_series_def)
next
  case False
  then have n: "n < length ys" and z: "0 < length ys" by auto
  have a: "dict_get (numeric_series ys ! 0) f (PNum 0) =
             PNum (case map_of (ys ! 0) f of Some x \<Rightarrow> x | None \<Rightarrow> 0)"
    using z by (simp add: numeric_series_def dict_get_numeric)
  have b: "dict_get (numeric_series ys ! n) f (PNum 0) =
             PNum (case map_of (ys ! n) f of Some x \<Rightarrow> x | None \<Rightarrow> 0)"
    using n by (simp add: numeric_series_def dict_get_numeric)
  have l: "length (numeric_series ys) = length ys" by (simp add: numeric_series_def)
  show ?thesis using False
    by (simp add: calc_cagr_def l a b positive_value_num Let_def)
qed

text \<open>The window 0: one entry is enough, both endpoints are 200, and \<open>1 / n\<close> raises.\<close>

lemma calc_cagr_zero_window:
  "calc_cagr pf (numeric_series [[(''rev'', 200)]]) ''rev'' 0 = Inl ZeroDivisionError"
  by (simp add: calc_cagr_numeric)






text \<open>
  \<open>round\<close> sees the double, not the exact value. For 2127 over 2000 and the window 1 the
  exact value is the tie 6.35; in double arithmetic the product is
  6.34999999999998898658759571844711899757385253906250, and the result is 6.3.
\<close>

lemma calc_cagr_rounds_the_double:
  assumes "625 / 100 < float_mul pf (float_sub pf (float_pow pf (truediv pf 2127 2000) (truediv pf 1 (real 1))) 1) 100"
      and "float_mul pf (float_sub pf (float_pow pf (truediv pf 2127 2000) (truediv pf 1 (real 1))) 1) 100 < 635 / 100"
  shows "calc_cagr pf (numeric_series [[(''rev'', 2127)], [(''rev'', 2000)]]) ''rev'' 1
           = Inr (Some (nearest pf (63 / 10)))"
proof -
  let ?m = "float_mul pf (float_sub pf (float_pow pf (truediv pf 2127 2000) (truediv pf 1 (real 1))) 1) 100"
  have "py_round ?m 1 = of_int 63 / 10 ^ 1"
    using assms by (intro py_round_between) simp_all
  then have pr: "py_round ?m 1 = 63 / 10" by simp
  have c: "calc_cagr pf (numeric_series [[(''rev'', 2127)], [(''rev'', 2000)]]) ''rev'' 1
            = Inr (Some (float_round pf ?m 1))"
    by (simp add: calc_cagr_numeric)
  show ?thesis by (simp only: c float_round_def pr)
qed

subsection \<open>The cache\<close>

lemma requests_cached: "requests (snd (cached now key ty s)) = requests s"
  by (simp add: cached_def split: option.splits)

lemma cache_lookup_Some:
  "cache_lookup now key ty s = Some p \<longleftrightarrow>
     (\<exists>e. cache s key = Some e \<and> now - entry_t e \<le> TTL ty \<and> entry_d e = p \<and> truthy_payload p)"
  by (auto simp: cache_lookup_def cache_hit_def cached_def split: option.splits)

lemma cached_unchanged_on_hit:
  "cache_lookup now key ty s = Some p \<Longrightarrow> cached now key ty s = (Some p, s)"
  by (auto simp: cache_lookup_def cache_hit_def cached_def split: option.splits if_splits)

lemma cache_lookup_expired:
  "cache s key = Some e \<Longrightarrow> TTL ty < now - entry_t e \<Longrightarrow> cache_lookup now key ty s = None"
  by (simp add: cache_lookup_def cache_hit_def cached_def)

lemma cache_set_cache: "cache (set_cache now key p s) key = Some \<lparr>entry_d = p, entry_t = now\<rparr>"
  by (simp add: set_cache_def)

lemma requests_set_cache: "requests (set_cache now key p s) = requests s"
  by (simp add: set_cache_def)

lemma requests_sent: "requests (sent r s) = requests s @ [r]"
  by (simp add: sent_def)

lemma TTL_quote: "TTL ''quote'' = 300"
  by (simp add: TTL_def)

lemma TTL_search: "TTL ''search'' = 86400"
  by (simp add: TTL_def)

subsection \<open>The adapters\<close>

lemma fetch_isma_eq:
  "fetch_isma w symb s =
     (isma_quote_of (isma_stock w (clean_symbol symb)), sent (ISMA_stock (clean_symbol symb)) s)"
  by (simp add: fetch_isma_def Let_def)

lemma fst_fetch_eodhd:
  "fst (fetch_eodhd_financials w symb s) =
     (if EODHD_KEY w = [] then None else eodhd_statements w (clean_symbol symb @ ''.NSE''))"
  by (simp add: fetch_eodhd_financials_def Let_def)

lemma fetch_yfinance_eq:
  "fetch_yfinance_financials w symb s =
     (yf_statements w (yfinance_ticker symb), sent (YF_financials (yfinance_ticker symb)) s)"
  by (simp add: fetch_yfinance_financials_def yfinance_ticker_def Let_def)

lemma fst_fetch_financials:
  "fst (fetch_financials w symb s) =
     (case fst (fetch_eodhd_financials w symb s) of
        Some f \<Rightarrow> (Some f, Some ''eodhd'')
      | None \<Rightarrow>
          (case yf_statements w (yfinance_ticker symb) of
             Some g \<Rightarrow> (Some g, Some ''yfinance'')
           | None \<Rightarrow> (None, None)))"
  by (simp add: fetch_financials_def fetch_yfinance_eq split: prod.splits option.splits)

lemma requests_fetch_financials:
  "requests (snd (fetch_financials w symb s)) =
     requests s
     @ (if EODHD_KEY w = [] then [] else [EODHD_fundamentals (clean_symbol symb @ ''.NSE'')])
     @ (case fst (fetch_eodhd_financials w symb s) of
          Some f \<Rightarrow> []
        | None \<Rightarrow> [YF_financials (yfinance_ticker symb)])"
  by (auto simp: fetch_financials_def fetch_yfinance_eq fetch_eodhd_financials_def requests_sent
      Let_def split: prod.splits option.splits)

subsection \<open>The handler\<close>

lemma fullstock_hit:
  assumes "cache_lookup (now_read w) (full_key (normalize_symbol pf symbol)) ''quote'' s = Some p"
  shows "fullstock pf w symbol s = (Inr p, s)"
  using cached_unchanged_on_hit [OF assms] assms
  by (simp add: fullstock_def Let_def cache_lookup_def)

lemma fullstock_on_miss:
  assumes "cache_lookup (now_read w) (full_key (normalize_symbol pf symbol)) ''quote'' s = None"
  shows "fullstock pf w symbol s =
     fullstock_miss pf w (normalize_symbol pf symbol) (full_key (normalize_symbol pf symbol))
       (snd (cached (now_read w) (full_key (normalize_symbol pf symbol)) ''quote'' s))"
  using assms by (auto simp: fullstock_def Let_def cache_lookup_def split: prod.splits)

lemma fst_fullstock_miss:
  "fst (fullstock_miss pf w symb ck s) =
     response (merge pf symb (isma_quote_of (isma_stock w (clean_symbol symb)))
       (fst (fst (fetch_financials w symb s))) (snd (fst (fetch_financials w symb s))))"
proof -
  have eq: "fst (fetch_financials w symb (sent (ISMA_stock (clean_symbol symb)) s)) =
        fst (fetch_financials w symb s)"
    by (simp add: fst_fetch_financials fst_fetch_eodhd)
  obtain fin src s2 where f: "fetch_financials w symb (sent (ISMA_stock (clean_symbol symb)) s) = ((fin, src), s2)"
    by (metis surj_pair)
  then have "fst (fetch_financials w symb s) = (fin, src)" using eq by simp
  then show ?thesis using f
    by (simp add: fullstock_miss_def fetch_isma_eq response_def split: sum.splits)
qed

lemma requests_fullstock_miss:
  "requests (snd (fullstock_miss pf w symb ck s)) =
     requests s @ [ISMA_stock (clean_symbol symb)]
     @ (if EODHD_KEY w = [] then [] else [EODHD_fundamentals (clean_symbol symb @ ''.NSE'')])
     @ (case fst (fetch_eodhd_financials w symb s) of
          Some f \<Rightarrow> []
        | None \<Rightarrow> [YF_financials (yfinance_ticker symb)])"
proof -
  obtain fin src s2 where f: "fetch_financials w symb (sent (ISMA_stock (clean_symbol symb)) s) = ((fin, src), s2)"
    by (metis surj_pair)
  have r: "requests s2 =
      requests s @ [ISMA_stock (clean_symbol symb)]
      @ (if EODHD_KEY w = [] then [] else [EODHD_fundamentals (clean_symbol symb @ ''.NSE'')])
      @ (case fst (fetch_eodhd_financials w symb s) of
           Some f \<Rightarrow> []
         | None \<Rightarrow> [YF_financials (yfinance_ticker symb)])"
    using requests_fetch_financials [of w symb "sent (ISMA_stock (clean_symbol symb)) s"] f
    by (simp add: requests_sent fst_fetch_eodhd)
  show ?thesis using f
    by (simp add: fullstock_miss_def fetch_isma_eq requests_set_cache r split: sum.splits)
qed

lemma cache_fullstock_miss:
  "fst (fullstock_miss pf w symb ck s) = Inr p \<Longrightarrow>
     cache (snd (fullstock_miss pf w symb ck s)) ck = Some \<lparr>entry_d = p, entry_t = now_write w\<rparr>"
  by (auto simp: fullstock_miss_def cache_set_cache split: prod.splits sum.splits)

lemma fullstock_miss_Record:
  "fst (fullstock_miss pf w symb ck s) = Inr p \<Longrightarrow> \<exists>m. p = Record m"
  by (auto simp: fullstock_miss_def split: prod.splits sum.splits)

subsection \<open>The merge\<close>

lemma on_success_Inr: "on_success r f = Inr y \<longleftrightarrow> (\<exists>x. r = Inr x \<and> f x = Inr y)"
  by (cases r) auto

lemma py_round_zero: "py_round 0 k = 0"
  by (simp add: py_round_def round_half_even_def)

lemma calc_cagr_Nil: "calc_cagr pf [] f n = Inr None"
  by (simp add: calc_cagr_def)

lemma merge_no_data: "merge pf symb None None None = Inr (empty_record symb)"
  by (simp add: merge_def number_def calc_cagr_Nil py_round_zero empty_record_def Let_def)

text \<open>The growth rates of a list of yearly entries never raise for a window of at least 1.\<close>

lemma calc_cagr_years:
  assumes "f = ''rev'' \<or> f = ''pat''" and "0 < n"
  shows "\<exists>r. calc_cagr pf (map year_dict ys) f n = Inr r"
proof (cases "length ys < n + 1")
  case True
  then show ?thesis by (simp add: calc_cagr_def)
next
  case False
  then have n: "n < length ys" and z: "0 < length ys" by auto
  obtain a where a: "dict_get (year_dict (ys ! 0)) f (PNum 0) = PNum a"
    using assms(1) by (auto simp: year_dict_def dict_get_def)
  obtain b where b: "dict_get (year_dict (ys ! n)) f (PNum 0) = PNum b"
    using assms(1) by (auto simp: year_dict_def dict_get_def)
  show ?thesis using n z assms(2)
    by (simp add: calc_cagr_def a b positive_value_def number_def Let_def)
qed

text \<open>What the merge copies, whenever it returns.\<close>

lemma merge_fields:
  assumes "merge pf symb isma fin src = Inr m"
  shows "m_sym m = symb"
    and "source_financials m = (case src of Some x \<Rightarrow> x | None \<Rightarrow> ''none'')"
    and "source_realtime m = (case isma of Some q \<Rightarrow> ''isma'' | None \<Rightarrow> ''none'')"
    and "source_years_available m = length (case fin of Some f \<Rightarrow> fin_years f | None \<Rightarrow> [])"
    and "m_rev m = (case (case fin of Some f \<Rightarrow> fin_years f | None \<Rightarrow> []) of
                      y # _ \<Rightarrow> y_rev y | [] \<Rightarrow> 0)"
    and "m_pat m = (case (case fin of Some f \<Rightarrow> fin_years f | None \<Rightarrow> []) of
                      y # _ \<Rightarrow> y_pat y | [] \<Rightarrow> 0)"
    and "calc_cagr pf (map year_dict (case fin of Some f \<Rightarrow> fin_years f | None \<Rightarrow> [])) ''rev'' 3
           = Inr (m_r3 m)"
    and "calc_cagr pf (map year_dict (case fin of Some f \<Rightarrow> fin_years f | None \<Rightarrow> [])) ''rev'' 5
           = Inr (m_r5 m)"
    and "calc_cagr pf (map year_dict (case fin of Some f \<Rightarrow> fin_years f | None \<Rightarrow> [])) ''pat'' 3
           = Inr (m_p3 m)"
    and "calc_cagr pf (map year_dict (case fin of Some f \<Rightarrow> fin_years f | None \<Rightarrow> [])) ''pat'' 5
           = Inr (m_p5 m)"
  using assms by (auto simp: merge_def Let_def on_success_Inr)

text \<open>The merge returns whenever price and market cap are numbers.\<close>

lemma merge_returns:
  assumes "\<exists>x. number (case isma of Some q \<Rightarrow> isma_mcap_raw q | None \<Rightarrow> PNum 0) = Inr x"
      and "\<exists>x. number (case isma of Some q \<Rightarrow> isma_cmp q | None \<Rightarrow> PNum 0) = Inr x"
  shows "\<exists>m. merge pf symb isma fin src = Inr m"
proof -
  obtain raw where raw: "number (case isma of Some q \<Rightarrow> isma_mcap_raw q | None \<Rightarrow> PNum 0) = Inr raw"
    using assms(1) by blast
  obtain price where price: "number (case isma of Some q \<Rightarrow> isma_cmp q | None \<Rightarrow> PNum 0) = Inr price"
    using assms(2) by blast
  define ys where "ys = (case fin of Some f \<Rightarrow> fin_years f | None \<Rightarrow> [])"
  obtain r3 where r3: "calc_cagr pf (map year_dict ys) ''rev'' 3 = Inr r3"
    using calc_cagr_years [of "''rev''" 3 pf ys] by auto
  obtain r5 where r5: "calc_cagr pf (map year_dict ys) ''rev'' 5 = Inr r5"
    using calc_cagr_years [of "''rev''" 5 pf ys] by auto
  obtain p3 where p3: "calc_cagr pf (map year_dict ys) ''pat'' 3 = Inr p3"
    using calc_cagr_years [of "''pat''" 3 pf ys] by auto
  obtain p5 where p5: "calc_cagr pf (map year_dict ys) ''pat'' 5 = Inr p5"
    using calc_cagr_years [of "''pat''" 5 pf ys] by auto
  show ?thesis
    using raw price r3 r5 p3 p5 unfolding ys_def
    by (simp add: merge_def Let_def)
qed

subsection \<open>Resolution on a cache miss\<close>

lemma normalize_TCS: "normalize_symbol pf ''TCS'' = ''TCS''"
  by (simp add: normalize_symbol_def clean_symbol_def upper_def upper_char_def is_ascii_def)

lemma clean_TCS: "clean_symbol ''TCS'' = ''TCS''"
  by (simp add: clean_symbol_def)

lemma cache_lookup_empty: "cache_lookup now key ty empty_state = None"
  by (simp add: cache_lookup_def cached_def cache_hit_def empty_state_def)

lemma cached_empty: "cached now key ty empty_state = (None, empty_state)"
  by (simp add: cached_def empty_state_def)

text \<open>
  With no data from any provider the handler answers with the all-zero record, whatever
  the symbol and the state of the cache it missed.
\<close>

lemma fullstock_no_data:
  assumes "cache_lookup (now_read w) (full_key (normalize_symbol pf symbol)) ''quote'' s = None"
      and "isma_quote_of (isma_stock w (clean_symbol (normalize_symbol pf symbol))) = None"
      and "fst (fetch_eodhd_financials w (normalize_symbol pf symbol) s) = None"
      and "yf_statements w (yfinance_ticker (normalize_symbol pf symbol)) = None"
  shows "fst (fullstock pf w symbol s) = Inr (Record (empty_record (normalize_symbol pf symbol)))"
  using assms(2-4)
  by (simp add: fullstock_on_miss [OF assms(1)] fst_fullstock_miss fst_fetch_financials
      fst_fetch_eodhd merge_no_data response_def)

text \<open>The handler returns a record whenever the price and the market cap are numbers.\<close>

lemma fullstock_returns:
  assumes "case isma_quote_of (isma_stock w (clean_symbol (normalize_symbol pf symbol))) of
             None \<Rightarrow> True
           | Some q \<Rightarrow> as_number (isma_mcap_raw q) \<noteq> None \<and> as_number (isma_cmp q) \<noteq> None"
  shows "\<exists>p. fst (fullstock pf w symbol s) = Inr p"
proof (cases "cache_lookup (now_read w) (full_key (normalize_symbol pf symbol)) ''quote'' s")
  case (Some p)
  then show ?thesis by (simp add: fullstock_hit)
next
  case None
  let ?isma = "isma_quote_of (isma_stock w (clean_symbol (normalize_symbol pf symbol)))"
  have "\<exists>x. number (case ?isma of Some q \<Rightarrow> isma_mcap_raw q | None \<Rightarrow> PNum 0) = Inr x"
     and "\<exists>x. number (case ?isma of Some q \<Rightarrow> isma_cmp q | None \<Rightarrow> PNum 0) = Inr x"
    using assms by (auto simp: number_def split: option.splits)
  then obtain m where "merge pf (normalize_symbol pf symbol) ?isma
      (fst (fst (fetch_financials w (normalize_symbol pf symbol)
         (snd (cached (now_read w) (full_key (normalize_symbol pf symbol)) ''quote'' s)))))
      (snd (fst (fetch_financials w (normalize_symbol pf symbol)
         (snd (cached (now_read w) (full_key (normalize_symbol pf symbol)) ''quote'' s))))) = Inr m"
    using merge_returns by blast
  then show ?thesis
    by (simp add: fullstock_on_miss [OF None] fst_fullstock_miss response_def)
qed

text \<open>
  Claim C1: resolving the full stock record never raises, whatever the providers do.
  With no data at all the record is the all-zero one (\<open>fullstock_no_data\<close>), and with a
  numeric price and market cap the handler returns (\<open>fullstock_returns\<close>). It does raise
  when the realtime provider answers 200 and \<open>success\<close> with a price and a \<open>null\<close>
  market cap: \<open>fetch_isma\<close> hands the \<open>None\<close> on, and \<open>mcap_raw > 1e6\<close>, outside any
  \<open>try\<close>, raises \<open>TypeError\<close>.
\<close>

theorem fullstock_raises_on_null_market_cap:
  "fst (fullstock pf (world_isma [(''last_price'', PNum 100), (''market_cap'', PNone)])
         ''TCS'' empty_state) = Inl TypeError"
  by (simp add: fullstock_on_miss cache_lookup_empty fst_fullstock_miss normalize_TCS clean_TCS
      world_isma_def world_down_def isma_success_def isma_quote_of_def dict_get_def
      merge_def number_def response_def Let_def)



subsection \<open>Market cap and shares outstanding\<close>

lemma merged_of_response:
  "merged_of (response r) = (case r of Inl e \<Rightarrow> None | Inr m \<Rightarrow> Some m)"
  by (simp add: response_def split: sum.splits)

lemma number_as_number: "number v = Inr x \<longleftrightarrow> as_number v = Some x"
  by (simp add: number_def split: option.splits)

text \<open>The two derived fields of the merge, lines 289, 294, 307 and 308.\<close>

lemma merge_derived:
  assumes "merge pf symb isma fin src = Inr m"
      and "as_number (case isma of Some q \<Rightarrow> isma_mcap_raw q | None \<Rightarrow> PNum 0) = Some raw"
      and "as_number (case isma of Some q \<Rightarrow> isma_cmp q | None \<Rightarrow> PNum 0) = Some price"
  shows "m_mcapCr m = py_round (if raw > 1000000 then raw / 10000000 else raw) 0"
    and "m_shr m =
           (if price > 0 \<and> (if raw > 1000000 then raw / 10000000 else raw) > 0
            then float_round pf (truediv pf (if raw > 1000000 then raw / 10000000 else raw) price) 2
            else 0)"
  using assms by (auto simp: merge_def Let_def on_success_Inr number_as_number)

text \<open>The merge never reads the share count of the statements.\<close>

lemma merge_ignores_shares:
  "merge pf symb isma (map_option (\<lambda>f. f\<lparr>fin_shares := v\<rparr>) fin) src = merge pf symb isma fin src"
  by (cases fin) (simp_all add: merge_def)

text \<open>The merged record of a response on a miss.\<close>

lemma merged_of_fullstock:
  assumes "cache_lookup (now_read w) (full_key (normalize_symbol pf symbol)) ''quote'' s = None"
      and "merged_of (fst (fullstock pf w symbol s)) = Some m"
  shows "\<exists>fin src. merge pf (normalize_symbol pf symbol)
           (isma_quote_of (isma_stock w (clean_symbol (normalize_symbol pf symbol)))) fin src = Inr m"
  using assms(2)
  by (auto simp: fullstock_on_miss [OF assms(1)] fst_fullstock_miss merged_of_response
      split: sum.splits)

lemma derived_of_response:
  assumes "as_number (case isma of Some q \<Rightarrow> isma_mcap_raw q | None \<Rightarrow> PNum 0) = Some raw"
      and "as_number (case isma of Some q \<Rightarrow> isma_cmp q | None \<Rightarrow> PNum 0) = Some price"
  shows "map_option m_mcapCr (merged_of (response (merge pf symb isma fin src))) =
           Some (py_round (if raw > 1000000 then raw / 10000000 else raw) 0)"
    and "map_option m_shr (merged_of (response (merge pf symb isma fin src))) =
           Some (if price > 0 \<and> (if raw > 1000000 then raw / 10000000 else raw) > 0
                 then float_round pf (truediv pf (if raw > 1000000 then raw / 10000000 else raw) price) 2
                 else 0)"
proof -
  obtain m where m: "merge pf symb isma fin src = Inr m"
    using merge_returns [of isma pf symb fin src] assms by (auto simp: number_as_number)
  show "map_option m_mcapCr (merged_of (response (merge pf symb isma fin src))) =
           Some (py_round (if raw > 1000000 then raw / 10000000 else raw) 0)"
    using merge_derived(1) [OF m assms] by (simp add: m merged_of_response)
  show "map_option m_shr (merged_of (response (merge pf symb isma fin src))) =
           Some (if price > 0 \<and> (if raw > 1000000 then raw / 10000000 else raw) > 0
                 then float_round pf (truediv pf (if raw > 1000000 then raw / 10000000 else raw) price) 2
                 else 0)"
    using merge_derived(2) [OF m assms] by (simp add: m merged_of_response)
qed

lemma fullstock_world_quoted:
  "fst (fullstock pf (world_quoted mc) ''TCS'' empty_state) =
     response (merge pf ''TCS''
       (isma_quote_of (isma_success [(''last_price'', PNum 100), (''market_cap'', PNum mc)]))
       (Some sample_financials) (Some ''yfinance''))"
  by (simp add: fullstock_on_miss cache_lookup_empty fst_fullstock_miss fst_fetch_financials
      fst_fetch_eodhd normalize_TCS clean_TCS world_quoted_def world_yfinance_def world_down_def)

lemma isma_quote_of_price_cap:
  "isma_quote_of (isma_success [(''last_price'', lp), (''market_cap'', mc)]) = Some q \<Longrightarrow>
     isma_cmp q = lp \<and> isma_mcap_raw q = mc"
  by (auto simp: isma_quote_of_def isma_success_def dict_get_def)

lemma isma_quote_of_success: "\<exists>q. isma_quote_of (isma_success d) = Some q"
  by (simp add: isma_quote_of_def isma_success_def dict_get_def)

lemma quoted_derived:
  "map_option m_mcapCr (merged_of (fst (fullstock pf (world_quoted mc) ''TCS'' empty_state))) =
     Some (py_round (if mc > 1000000 then mc / 10000000 else mc) 0)"
  "map_option m_shr (merged_of (fst (fullstock pf (world_quoted mc) ''TCS'' empty_state))) =
     Some (if (if mc > 1000000 then mc / 10000000 else mc) > 0
           then float_round pf (truediv pf (if mc > 1000000 then mc / 10000000 else mc) 100) 2
           else 0)"
proof -
  obtain q where q: "isma_quote_of (isma_success [(''last_price'', PNum 100), (''market_cap'', PNum mc)]) = Some q"
    using isma_quote_of_success by blast
  have f: "isma_cmp q = PNum 100" "isma_mcap_raw q = PNum mc"
    using isma_quote_of_price_cap [OF q] by simp_all
  have a: "as_number (case Some q of Some q \<Rightarrow> isma_mcap_raw q | None \<Rightarrow> PNum 0) = Some mc"
    by (simp add: f)
  have b: "as_number (case Some q of Some q \<Rightarrow> isma_cmp q | None \<Rightarrow> PNum 0) = Some 100"
    by (simp add: f)
  show "map_option m_mcapCr (merged_of (fst (fullstock pf (world_quoted mc) ''TCS'' empty_state))) =
     Some (py_round (if mc > 1000000 then mc / 10000000 else mc) 0)"
    using derived_of_response(1) [OF a b] by (simp add: fullstock_world_quoted q)
  show "map_option m_shr (merged_of (fst (fullstock pf (world_quoted mc) ''TCS'' empty_state))) =
     Some (if (if mc > 1000000 then mc / 10000000 else mc) > 0
           then float_round pf (truediv pf (if mc > 1000000 then mc / 10000000 else mc) 100) 2
           else 0)"
    using derived_of_response(2) [OF a b] by (simp add: fullstock_world_quoted q)
qed

lemma py_round_Ints: "x \<in> \<int> \<Longrightarrow> py_round x 0 = x"
  by (auto simp: Ints_def py_round_of_int)

lemma quoted_inputs:
  "\<exists>q m. isma_quote_of (isma_stock (world_quoted mc) (clean_symbol (normalize_symbol pf ''TCS''))) = Some q
     \<and> isma_mcap_raw q = PNum mc \<and> isma_cmp q = PNum 100
     \<and> merged_of (fst (fullstock pf (world_quoted mc) ''TCS'' empty_state)) = Some m"
proof -
  obtain q where q: "isma_quote_of (isma_success [(''last_price'', PNum 100), (''market_cap'', PNum mc)]) = Some q"
    using isma_quote_of_success by blast
  have q': "isma_quote_of (isma_stock (world_quoted mc) (clean_symbol (normalize_symbol pf ''TCS''))) = Some q"
    using q by (simp add: world_quoted_def)
  obtain m where m: "merged_of (fst (fullstock pf (world_quoted mc) ''TCS'' empty_state)) = Some m"
    using quoted_derived(1) [of pf mc] by blast
  show ?thesis using q' m isma_quote_of_price_cap [OF q] by blast
qed

text \<open>
  Claim C4, as the code has it. On a cache miss with a numeric market cap from the
  realtime provider, the record's market cap in crores is the raw value divided by
  10,000,000 when it exceeds 1,000,000 and the raw value otherwise, in both cases rounded
  to a whole number (line 308); a whole raw value of at most 1,000,000 passes unchanged.
\<close>

theorem market_cap_crores_rounded:
  assumes "cache_lookup (now_read w) (full_key (normalize_symbol pf symbol)) ''quote'' s = None"
      and "isma_quote_of (isma_stock w (clean_symbol (normalize_symbol pf symbol))) = Some q"
      and "isma_mcap_raw q = PNum raw"
      and "merged_of (fst (fullstock pf w symbol s)) = Some m"
  shows "m_mcapCr m = (if raw > 1000000 then py_round (raw / 10000000) 0 else py_round raw 0)
         \<and> (raw \<le> 1000000 \<and> raw \<in> \<int> \<longrightarrow> m_mcapCr m = raw)"
proof -
  obtain fin src where mg: "merge pf (normalize_symbol pf symbol) (Some q) fin src = Inr m"
    using merged_of_fullstock [OF assms(1,4)] assms(2) by auto
  then obtain price where "number (isma_cmp q) = Inr price"
    by (auto simp: merge_def Let_def on_success_Inr)
  then have p: "as_number (case Some q of Some q \<Rightarrow> isma_cmp q | None \<Rightarrow> PNum 0) = Some price"
    by (simp add: number_as_number)
  have r: "as_number (case Some q of Some q \<Rightarrow> isma_mcap_raw q | None \<Rightarrow> PNum 0) = Some raw"
    by (simp add: assms(3))
  have "m_mcapCr m = py_round (if raw > 1000000 then raw / 10000000 else raw) 0"
    by (rule merge_derived(1) [OF mg r p])
  then show ?thesis by (simp add: py_round_Ints)
qed

text \<open>The examples of the specification: 5,000,000,000 gives 500 and 500 stays 500.\<close>

theorem market_cap_crores_rounded_witness:
  "map_option m_mcapCr (merged_of (fst (fullstock exact_platform (world_quoted 5000000000) ''TCS'' empty_state)))
     = Some 500
   \<and> map_option m_mcapCr (merged_of (fst (fullstock exact_platform (world_quoted 500) ''TCS'' empty_state)))
     = Some 500"
proof -
  have miss: "cache_lookup (now_read (world_quoted mc)) (full_key (normalize_symbol exact_platform ''TCS''))
                ''quote'' empty_state = None" for mc
    by (rule cache_lookup_empty)
  obtain q1 m1 where
    q1: "isma_quote_of (isma_stock (world_quoted 5000000000) (clean_symbol (normalize_symbol exact_platform ''TCS''))) = Some q1"
    and r1: "isma_mcap_raw q1 = PNum 5000000000"
    and m1: "merged_of (fst (fullstock exact_platform (world_quoted 5000000000) ''TCS'' empty_state)) = Some m1"
    using quoted_inputs [of 5000000000 exact_platform] by blast
  obtain q2 m2 where
    q2: "isma_quote_of (isma_stock (world_quoted 500) (clean_symbol (normalize_symbol exact_platform ''TCS''))) = Some q2"
    and r2: "isma_mcap_raw q2 = PNum 500"
    and m2: "merged_of (fst (fullstock exact_platform (world_quoted 500) ''TCS'' empty_state)) = Some m2"
    using quoted_inputs [of 500 exact_platform] by blast
  have "m_mcapCr m1 = py_round (5000000000 / 10000000) 0"
    using market_cap_crores_rounded [OF miss q1 r1 m1] by simp
  then have a: "m_mcapCr m1 = 500"
    by (simp add: py_round_def round_half_even_def)
  have b: "m_mcapCr m2 = 500"
    using market_cap_crores_rounded [OF miss q2 r2 m2] by simp
  show ?thesis by (simp add: m1 m2 a b)
qed

text \<open>
  A raw market cap of 15,000,000 is 1.5 crores; the record reports 2, not the raw value
  divided by 10,000,000.
\<close>

theorem market_cap_crores_not_exact:
  "map_option m_mcapCr (merged_of (fst (fullstock exact_platform (world_quoted 15000000) ''TCS'' empty_state)))
     = Some 2
   \<and> map_option m_mcapCr (merged_of (fst (fullstock exact_platform (world_quoted 15000000) ''TCS'' empty_state)))
     \<noteq> Some (15000000 / 10000000)"
  by (simp add: quoted_derived(1) py_round_def round_half_even_def Let_def)

lemma fst_fetch_financials_with_shares:
  "fst (fetch_financials (with_shares v w) symb s) =
     (map_option (\<lambda>f. f\<lparr>fin_shares := v\<rparr>) (fst (fst (fetch_financials w symb s))),
      snd (fst (fetch_financials w symb s)))"
  by (simp add: fst_fetch_financials fst_fetch_eodhd with_shares_def split: option.splits)

text \<open>The response does not depend on the share count the financial providers report.\<close>

lemma fullstock_ignores_shares:
  "fst (fullstock pf (with_shares v w) symbol s) = fst (fullstock pf w symbol s)"
proof (cases "cache_lookup (now_read w) (full_key (normalize_symbol pf symbol)) ''quote'' s")
  case (Some p)
  have "cache_lookup (now_read (with_shares v w)) (full_key (normalize_symbol pf symbol)) ''quote'' s = Some p"
    using Some by (simp add: with_shares_def)
  then show ?thesis using Some by (simp add: fullstock_hit)
next
  case None
  have n: "cache_lookup (now_read (with_shares v w)) (full_key (normalize_symbol pf symbol)) ''quote'' s = None"
    using None by (simp add: with_shares_def)
  have i: "isma_stock (with_shares v w) = isma_stock w" and t: "now_read (with_shares v w) = now_read w"
    by (simp_all add: with_shares_def)
  show ?thesis
    by (simp add: fullstock_on_miss [OF None] fullstock_on_miss [OF n] fst_fullstock_miss
        fst_fetch_financials_with_shares merge_ignores_shares i t)
qed

lemma float_round_exact: "float_round exact_platform x n = py_round x n"
  by (simp add: float_round_def exact_platform_def)

lemma truediv_exact: "truediv exact_platform x y = x / y"
  by (simp add: exact_platform_def)

text \<open>
  Claim C6, as the code has it. On a cache miss with a numeric price and market cap, the
  record's shares outstanding is 0 unless the price and the market cap in crores (before
  rounding) are both positive; then it is the floating-point quotient of the market cap in
  crores by the price (line 294), rounded to two decimals by \<open>round\<close> (line 307). The
  share count of the financials provider never reaches the record: the response to a
  request is the same whatever count the provider reports.
\<close>

theorem shares_outstanding_derived:
  assumes "cache_lookup (now_read w) (full_key (normalize_symbol pf symbol)) ''quote'' s = None"
      and "isma_quote_of (isma_stock w (clean_symbol (normalize_symbol pf symbol))) = Some q"
      and "as_number (isma_cmp q) = Some price"
      and "as_number (isma_mcap_raw q) = Some raw"
      and "merged_of (fst (fullstock pf w symbol s)) = Some m"
  shows "m_shr m =
           (let mcap_cr = (if raw > 1000000 then raw / 10000000 else raw)
            in if price > 0 \<and> mcap_cr > 0
               then nearest pf (py_round (truediv pf mcap_cr price) 2) else 0)
         \<and> fst (fullstock pf (with_shares v w) symbol s) = fst (fullstock pf w symbol s)"
proof -
  obtain fin src where mg: "merge pf (normalize_symbol pf symbol) (Some q) fin src = Inr m"
    using merged_of_fullstock [OF assms(1,5)] assms(2) by auto
  have r: "as_number (case Some q of Some q \<Rightarrow> isma_mcap_raw q | None \<Rightarrow> PNum 0) = Some raw"
    by (simp add: assms(4))
  have p: "as_number (case Some q of Some q \<Rightarrow> isma_cmp q | None \<Rightarrow> PNum 0) = Some price"
    by (simp add: assms(3))
  show ?thesis
    using merge_derived(2) [OF mg r p]
    by (simp add: Let_def fullstock_ignores_shares float_round_def)
qed

text \<open>
  A market cap of 5,000,000,000 at a price of 100: 500 crores, 5 crore shares, whether the
  provider of the statements reports 123,456,789 shares or 7.
\<close>

theorem shares_outstanding_derived_witness:
  "map_option m_shr (merged_of (fst (fullstock exact_platform (world_quoted 5000000000) ''TCS'' empty_state)))
     = Some 5
   \<and> fst (fullstock exact_platform (with_shares (PNum 7) (world_quoted 5000000000)) ''TCS'' empty_state)
     = fst (fullstock exact_platform (world_quoted 5000000000) ''TCS'' empty_state)"
proof -
  have miss: "cache_lookup (now_read (world_quoted 5000000000)) (full_key (normalize_symbol exact_platform ''TCS''))
                ''quote'' empty_state = None"
    by (rule cache_lookup_empty)
  obtain q m where
    q: "isma_quote_of (isma_stock (world_quoted 5000000000) (clean_symbol (normalize_symbol exact_platform ''TCS''))) = Some q"
    and r: "isma_mcap_raw q = PNum 5000000000"
    and c: "isma_cmp q = PNum 100"
    and m: "merged_of (fst (fullstock exact_platform (world_quoted 5000000000) ''TCS'' empty_state)) = Some m"
    using quoted_inputs [of 5000000000 exact_platform] by blast
  have p': "as_number (isma_cmp q) = Some 100" by (simp add: c)
  have r': "as_number (isma_mcap_raw q) = Some 5000000000" by (simp add: r)
  have t: "m_shr m = py_round (5000000000 / 10000000 / 100) 2
         \<and> fst (fullstock exact_platform (with_shares (PNum 7) (world_quoted 5000000000)) ''TCS'' empty_state)
           = fst (fullstock exact_platform (world_quoted 5000000000) ''TCS'' empty_state)"
    using shares_outstanding_derived [OF miss q p' r' m, of "PNum 7"]
    by (simp add: Let_def exact_platform_def)
  then have "m_shr m = 5" by (simp add: py_round_def round_half_even_def)
  then show ?thesis using t by (simp add: m)
qed

text \<open>
  yfinance supplies a count of 123,456,789 shares; the record reports 5, the 500 crores
  of market cap divided by the price of 100.
\<close>

theorem shares_outstanding_not_supplied:
  "map_option fin_shares (fst (fetch_yfinance_financials (world_quoted 5000000000) ''TCS'' empty_state))
     = Some (PNum 123456789)
   \<and> map_option m_shr (merged_of (fst (fullstock exact_platform (world_quoted 5000000000) ''TCS'' empty_state)))
     = Some 5"
proof -
  have "map_option fin_shares (fst (fetch_yfinance_financials (world_quoted 5000000000) ''TCS'' empty_state))
          = Some (PNum 123456789)"
    by (simp add: fetch_yfinance_eq world_quoted_def world_yfinance_def sample_financials_def)
  moreover have "map_option m_shr (merged_of (fst (fullstock exact_platform (world_quoted 5000000000) ''TCS'' empty_state)))
          = Some 5"
    by (simp add: quoted_derived(2) float_round_exact truediv_exact py_round_def round_half_even_def Let_def)
  ultimately show ?thesis by simp
qed

text \<open>
  \<open>round\<close> sees the double quotient. A market cap of 15,000,000 is 1.5 crores, and 1.5
  over the price of 100 is the double 0.01499999999999999944488848768742172978818416595459,
  below the tie 0.015 of the exact quotient: the record reports 0.01.
\<close>

lemma shares_round_the_double:
  assumes "5 / 1000 < truediv pf (15 / 10) 100" and "truediv pf (15 / 10) 100 < 15 / 1000"
  shows "map_option m_shr (merged_of (fst (fullstock pf (world_quoted 15000000) ''TCS'' empty_state)))
           = Some (nearest pf (1 / 100))"
proof -
  have "py_round (truediv pf (15 / 10) 100) 2 = of_int 1 / 10 ^ 2"
    using assms by (intro py_round_between) simp_all
  then have pr: "py_round (truediv pf (15 / 10) 100) 2 = 1 / 100" by simp
  have "map_option m_shr (merged_of (fst (fullstock pf (world_quoted 15000000) ''TCS'' empty_state)))
          = Some (float_round pf (truediv pf (15 / 10) 100) 2)"
    by (simp add: quoted_derived(2))
  then show ?thesis by (simp only: float_round_def pr)
qed

subsection \<open>Symbol normalisation\<close>

lemma merged_of_Some: "merged_of r = Some m \<longleftrightarrow> r = Inr (Record m)"
  by (cases "(r)" rule: merged_of.cases) auto

lemma fullstock_stores:
  assumes "cache_lookup (now_read w) (full_key (normalize_symbol pf symbol)) ''quote'' s = None"
      and "merged_of (fst (fullstock pf w symbol s)) = Some m"
  shows "m_sym m = normalize_symbol pf symbol"
    and "cache (snd (fullstock pf w symbol s)) (full_key (normalize_symbol pf symbol)) =
           Some \<lparr>entry_d = Record m, entry_t = now_write w\<rparr>"
proof -
  obtain fin src where "merge pf (normalize_symbol pf symbol)
      (isma_quote_of (isma_stock w (clean_symbol (normalize_symbol pf symbol)))) fin src = Inr m"
    using merged_of_fullstock [OF assms] by blast
  then show "m_sym m = normalize_symbol pf symbol" by (rule merge_fields(1))
  have "fst (fullstock pf w symbol s) = Inr (Record m)"
    using assms(2) by (simp add: merged_of_Some)
  then show "cache (snd (fullstock pf w symbol s)) (full_key (normalize_symbol pf symbol)) =
           Some \<lparr>entry_d = Record m, entry_t = now_write w\<rparr>"
    using cache_fullstock_miss by (simp add: fullstock_on_miss [OF assms(1)])
qed

lemma fullstock_world_down:
  "fst (fullstock pf world_down symbol empty_state) = Inr (Record (empty_record (normalize_symbol pf symbol)))"
  by (rule fullstock_no_data)
     (simp_all add: cache_lookup_empty fst_fetch_eodhd world_down_def isma_quote_of_def)

text \<open>A miss writes the cache under its own key only.\<close>

lemma cache_fullstock_miss_other:
  "k \<noteq> ck \<Longrightarrow> cache (snd (fullstock_miss pf w symb ck s)) k = cache s k"
  by (auto simp: fullstock_miss_def fetch_isma_eq fetch_financials_def fetch_eodhd_financials_def
      fetch_yfinance_eq set_cache_def sent_def Let_def split: prod.splits sum.splits)

text \<open>\<open>replace\<close> deletes every occurrence, and the two suffixes one after the other.\<close>

lemma clean_symbol_every_occurrence:
  "clean_symbol ''A.NS.NS'' = ''A''"
  "clean_symbol ''A.BO.NS.BO'' = ''A''"
  "clean_symbol ''TCS.NS'' = ''TCS''"
  "clean_symbol ''TCS.BO'' = ''TCS''"
  by (simp_all add: clean_symbol_def)

text \<open>
  Claim C8: the symbol is uppercased and the exchange suffixes \<open>.NS\<close> and \<open>.BO\<close>, and
  only those trailing suffixes, are stripped; the normalized form is the record's \<open>sym\<close>
  and the symbol of the cache key. The normalized form is what the record and the cache
  key carry (\<open>fullstock_stores\<close>), but it is not the symbol without its suffix: the
  comment of line 60 says \<open>Remove .NS/.BO suffix if present\<close>, and \<open>str.replace\<close> deletes
  the text wherever it stands. \<open>A.NSB\<close> has no trailing suffix, so stripping suffixes
  leaves it as it is; the code turns it into \<open>AB\<close>, in the record and in the cache key,
  on every platform.
\<close>

theorem symbol_normalisation_not_suffix_only:
  "spec_normalize_symbol pf ''A.NSB'' = ''A.NSB''
   \<and> normalize_symbol pf ''A.NSB'' = ''AB''
   \<and> map_option m_sym (merged_of (fst (fullstock pf world_down ''A.NSB'' empty_state))) = Some ''AB''
   \<and> cache (snd (fullstock pf world_down ''A.NSB'' empty_state)) ''full:AB'' =
        Some \<lparr>entry_d = Record (empty_record ''AB''), entry_t = now_write world_down\<rparr>
   \<and> cache (snd (fullstock pf world_down ''A.NSB'' empty_state)) ''full:A.NSB'' = None"
proof -
  have u: "upper pf ''A.NSB'' = ''A.NSB''" by (simp add: upper_def upper_char_def is_ascii_def)
  have n: "normalize_symbol pf ''A.NSB'' = ''AB''"
    by (simp add: normalize_symbol_def clean_symbol_def u)
  have s: "spec_normalize_symbol pf ''A.NSB'' = ''A.NSB''"
    by (simp add: spec_normalize_symbol_def strip_suffix_def u)
  have r: "fst (fullstock pf world_down ''A.NSB'' empty_state) = Inr (Record (empty_record ''AB''))"
    by (simp add: fullstock_world_down n)
  have l: "cache_lookup (now_read world_down) (full_key (normalize_symbol pf ''A.NSB'')) ''quote'' empty_state = None"
    by (rule cache_lookup_empty)
  have m: "merged_of (fst (fullstock pf world_down ''A.NSB'' empty_state)) = Some (empty_record ''AB'')"
    by (simp add: r)
  have k: "full_key ''AB'' = ''full:AB''" by (simp add: full_key_def)
  have c: "cache (snd (fullstock pf world_down ''A.NSB'' empty_state)) ''full:AB'' =
        Some \<lparr>entry_d = Record (empty_record ''AB''), entry_t = now_write world_down\<rparr>"
    using fullstock_stores(2) [OF l m] by (simp add: n k)
  have "cache (snd (fullstock pf world_down ''A.NSB'' empty_state)) ''full:A.NSB'' =
          cache empty_state ''full:A.NSB''"
    unfolding fullstock_on_miss [OF l] n k cached_empty snd_conv
    by (rule cache_fullstock_miss_other) simp
  then have o: "cache (snd (fullstock pf world_down ''A.NSB'' empty_state)) ''full:A.NSB'' = None"
    by (simp add: empty_state_def)
  show ?thesis by (simp add: n s m c o empty_record_def)
qed

subsection \<open>The cache across two resolutions\<close>

text \<open>Whatever \<open>fullstock\<close> returns is in the cache under the symbol's key, and is truthy.\<close>

lemma fullstock_cached_after:
  assumes "fullstock pf w symbol s = (Inr p, s1)"
  shows "\<exists>e. cache s1 (full_key (normalize_symbol pf symbol)) = Some e \<and> entry_d e = p
           \<and> truthy_payload p
           \<and> (cache_lookup (now_read w) (full_key (normalize_symbol pf symbol)) ''quote'' s = None
                \<longrightarrow> entry_t e = now_write w)"
proof (cases "cache_lookup (now_read w) (full_key (normalize_symbol pf symbol)) ''quote'' s")
  case (Some p')
  then have "fullstock pf w symbol s = (Inr p', s)" by (rule fullstock_hit)
  then have eq: "p' = p" "s1 = s" using assms by simp_all
  obtain e where "cache s (full_key (normalize_symbol pf symbol)) = Some e" "entry_d e = p'"
      "truthy_payload p'"
    using Some unfolding cache_lookup_Some by blast
  then show ?thesis using eq by (simp add: Some)
next
  case None
  let ?k = "full_key (normalize_symbol pf symbol)"
  let ?s0 = "snd (cached (now_read w) ?k ''quote'' s)"
  have f: "fullstock_miss pf w (normalize_symbol pf symbol) ?k ?s0 = (Inr p, s1)"
    using assms by (simp add: fullstock_on_miss [OF None])
  then have "fst (fullstock_miss pf w (normalize_symbol pf symbol) ?k ?s0) = Inr p" by simp
  from cache_fullstock_miss [OF this] fullstock_miss_Record [OF this]
  have "cache s1 ?k = Some \<lparr>entry_d = p, entry_t = now_write w\<rparr>" and "truthy_payload p"
    using f by auto
  then show ?thesis by simp
qed

text \<open>
  Claim C5. Once a resolution has returned a payload, every resolution of the same
  symbol at most 300 seconds after the entry was written returns the same payload and
  leaves the cache and the list of upstream requests as they are; a resolution later
  than that sends a new request to the realtime provider. The entry is written at the
  time of the first resolution when that one missed the cache.
\<close>

theorem fullstock_cache_ttl:
  assumes "fullstock pf w1 symbol s = (Inr p, s1)"
  shows "cache s1 (full_key (normalize_symbol pf symbol)) \<noteq> None
         \<and> (\<forall>e. cache s1 (full_key (normalize_symbol pf symbol)) = Some e \<longrightarrow>
               entry_d e = p
               \<and> (cache_lookup (now_read w1) (full_key (normalize_symbol pf symbol)) ''quote'' s = None
                    \<longrightarrow> entry_t e = now_write w1)
               \<and> (\<forall>w2. now_read w2 - entry_t e \<le> 300 \<longrightarrow>
                     fullstock pf w2 symbol s1 = (Inr p, s1))
               \<and> (\<forall>w2. now_read w2 - entry_t e > 300 \<longrightarrow>
                     take (Suc (length (requests s1))) (requests (snd (fullstock pf w2 symbol s1))) =
                       requests s1 @ [ISMA_stock (clean_symbol (normalize_symbol pf symbol))]))"
proof -
  let ?k = "full_key (normalize_symbol pf symbol)"
  obtain e0 where e0: "cache s1 ?k = Some e0" "entry_d e0 = p" "truthy_payload p"
      "cache_lookup (now_read w1) ?k ''quote'' s = None \<longrightarrow> entry_t e0 = now_write w1"
    using fullstock_cached_after [OF assms] by (elim exE conjE)
  have hit: "fullstock pf w2 symbol s1 = (Inr p, s1)" if "now_read w2 - entry_t e0 \<le> 300" for w2
  proof -
    have "cache_lookup (now_read w2) ?k ''quote'' s1 = Some p"
      unfolding cache_lookup_Some using e0 that by (simp add: TTL_quote)
    then show ?thesis by (rule fullstock_hit)
  qed
  have miss: "take (Suc (length (requests s1))) (requests (snd (fullstock pf w2 symbol s1))) =
                requests s1 @ [ISMA_stock (clean_symbol (normalize_symbol pf symbol))]"
    if "now_read w2 - entry_t e0 > 300" for w2
  proof -
    have "cache_lookup (now_read w2) ?k ''quote'' s1 = None"
      using e0(1) that by (simp add: cache_lookup_expired TTL_quote)
    then show ?thesis
      by (simp add: fullstock_on_miss requests_fullstock_miss requests_cached)
  qed
  have "entry_d e = p
        \<and> (cache_lookup (now_read w1) ?k ''quote'' s = None \<longrightarrow> entry_t e = now_write w1)
        \<and> (\<forall>w2. now_read w2 - entry_t e \<le> 300 \<longrightarrow> fullstock pf w2 symbol s1 = (Inr p, s1))
        \<and> (\<forall>w2. now_read w2 - entry_t e > 300 \<longrightarrow>
              take (Suc (length (requests s1))) (requests (snd (fullstock pf w2 symbol s1))) =
                requests s1 @ [ISMA_stock (clean_symbol (normalize_symbol pf symbol))])"
    if "cache s1 ?k = Some e" for e
  proof -
    have "e = e0" using that e0(1) by simp
    then show ?thesis using e0(2,4) hit miss by simp
  qed
  then show ?thesis using e0(1) by simp
qed

theorem fullstock_cache_ttl_witness:
  "fst (fullstock exact_platform world_down ''TCS'' empty_state) = Inr (Record (empty_record ''TCS''))
   \<and> fullstock exact_platform (world_down\<lparr>now_read := 1301\<rparr>) ''TCS'' (snd (fullstock exact_platform world_down ''TCS'' empty_state))
       = (Inr (Record (empty_record ''TCS'')), snd (fullstock exact_platform world_down ''TCS'' empty_state))
   \<and> take 3 (requests (snd (fullstock exact_platform (world_down\<lparr>now_read := 1302\<rparr>) ''TCS''
                              (snd (fullstock exact_platform world_down ''TCS'' empty_state)))))
       = [ISMA_stock ''TCS'', YF_financials ''TCS.NS'', ISMA_stock ''TCS'']"
proof -
  let ?s1 = "snd (fullstock exact_platform world_down ''TCS'' empty_state)"
  let ?e = "\<lparr>entry_d = Record (empty_record ''TCS''), entry_t = now_write world_down\<rparr>"
  have r: "fst (fullstock exact_platform world_down ''TCS'' empty_state) = Inr (Record (empty_record ''TCS''))"
    by (simp add: fullstock_world_down normalize_TCS)
  then have first: "fullstock exact_platform world_down ''TCS'' empty_state = (Inr (Record (empty_record ''TCS'')), ?s1)"
    by (simp add: prod_eq_iff)
  have l: "cache_lookup (now_read world_down) (full_key (normalize_symbol exact_platform ''TCS'')) ''quote'' empty_state = None"
    by (rule cache_lookup_empty)
  have m: "merged_of (fst (fullstock exact_platform world_down ''TCS'' empty_state)) = Some (empty_record ''TCS'')"
    by (simp add: r)
  have entry: "cache ?s1 (full_key (normalize_symbol exact_platform ''TCS'')) = Some ?e"
    by (rule fullstock_stores(2) [OF l m])
  have reqs: "requests ?s1 = [ISMA_stock ''TCS'', YF_financials ''TCS.NS'']"
  proof -
    have "requests ?s1 = requests empty_state @ [ISMA_stock ''TCS'']
        @ (if EODHD_KEY world_down = [] then [] else [EODHD_fundamentals (''TCS'' @ ''.NSE'')])
        @ (case fst (fetch_eodhd_financials world_down ''TCS'' empty_state) of
             Some f \<Rightarrow> [] | None \<Rightarrow> [YF_financials (yfinance_ticker ''TCS'')])"
      using requests_fullstock_miss [of exact_platform world_down "''TCS''" "full_key ''TCS''" empty_state]
      by (simp add: fullstock_on_miss [OF l] normalize_TCS clean_TCS cached_empty fst_fetch_eodhd)
    then show ?thesis
      by (simp add: fst_fetch_eodhd yfinance_ticker_def world_down_def empty_state_def)
  qed
  note th = fullstock_cache_ttl [OF first, THEN conjunct2, rule_format, OF entry]
  have a: "fullstock exact_platform (world_down\<lparr>now_read := 1301\<rparr>) ''TCS'' ?s1 = (Inr (Record (empty_record ''TCS'')), ?s1)"
    by (rule th [THEN conjunct2, THEN conjunct2, THEN conjunct1, rule_format])
       (simp add: world_down_def)
  have "take (Suc (length (requests ?s1))) (requests (snd (fullstock exact_platform (world_down\<lparr>now_read := 1302\<rparr>) ''TCS'' ?s1))) =
                  requests ?s1 @ [ISMA_stock (clean_symbol (normalize_symbol exact_platform ''TCS''))]"
    by (rule th [THEN conjunct2, THEN conjunct2, THEN conjunct2, rule_format])
       (simp add: world_down_def)
  then have b: "take 3 (requests (snd (fullstock exact_platform (world_down\<lparr>now_read := 1302\<rparr>) ''TCS'' ?s1)))
       = [ISMA_stock ''TCS'', YF_financials ''TCS.NS'', ISMA_stock ''TCS'']"
    by (simp add: reqs normalize_TCS clean_TCS eval_nat_numeral)
  show ?thesis using r a b by simp
qed

subsection \<open>Batch quotes\<close>

lemma map_stocks_prefix: "fst (map_stocks stocks results) = results @ mapped_prefix stocks"
  by (induction stocks arbitrary: results) (auto split: sum.splits)

lemma batch_key_take: "batch_key (take 20 symbols) = batch_key symbols"
  by (simp add: batch_key_def)

lemma batch_quotes_hit:
  assumes "symbols \<noteq> []"
      and "cache_lookup (now_read w) (batch_key symbols) ''quote'' s = Some p"
  shows "batch_quotes w symbols s = (p, s)"
  using cached_unchanged_on_hit [OF assms(2)] assms
  by (simp add: batch_quotes_def Let_def cache_lookup_def)

lemma batch_quotes_on_miss:
  assumes "symbols \<noteq> []"
      and "cache_lookup (now_read w) (batch_key symbols) ''quote'' s = None"
  shows "batch_quotes w symbols s =
     (let syms_str = join '','' (map clean_symbol (take 20 symbols));
          results = fst (batch_results (isma_list w syms_str))
      in (Quotes results,
          set_cache (now_write w) (batch_key symbols) (Quotes results)
            (sent (ISMA_list syms_str) (snd (cached (now_read w) (batch_key symbols) ''quote'' s)))))"
  using assms by (auto simp: batch_quotes_def Let_def cache_lookup_def split: prod.splits)

lemma batch_quotes_take: "batch_quotes w (take 20 symbols) s = batch_quotes w symbols s"
proof (cases "symbols = []")
  case True
  then show ?thesis by simp
next
  case False
  then have n: "take 20 symbols \<noteq> []" by (cases symbols) simp_all
  have t: "take 20 (take 20 symbols) = take 20 symbols" by simp
  show ?thesis unfolding batch_quotes_def batch_key_take t using False n by simp
qed

lemma batch_results_failures:
  "fst (batch_results Transport_failure) = []"
  "code \<noteq> 200 \<Longrightarrow> fst (batch_results (Http_reply code body)) = []"
  "fst (batch_results (Http_reply 200 None)) = []"
  "attr_get data ''stocks'' (PList []) = Inl e \<Longrightarrow>
     fst (batch_results (Http_reply 200 (Some data))) = []"
  "attr_get data ''stocks'' (PList []) = Inr stocks \<Longrightarrow> iterate stocks = Inl e \<Longrightarrow>
     fst (batch_results (Http_reply 200 (Some data))) = []"
  by (simp_all add: batch_results_def)

lemma batch_results_items:
  "attr_get data ''stocks'' (PList []) = Inr stocks \<Longrightarrow> iterate stocks = Inr items \<Longrightarrow>
     fst (batch_results (Http_reply 200 (Some data))) = mapped_prefix items"
  by (simp add: batch_results_def map_stocks_prefix)

lemma requests_batch_on_miss:
  assumes "symbols \<noteq> []"
      and "cache_lookup (now_read w) (batch_key symbols) ''quote'' s = None"
  shows "requests (snd (batch_quotes w symbols s)) =
           requests s @ [ISMA_list (join '','' (map clean_symbol (take 20 symbols)))]"
    and "fst (batch_quotes w symbols s) =
           Quotes (fst (batch_results (isma_list w (join '','' (map clean_symbol (take 20 symbols))))))"
    and "cache (snd (batch_quotes w symbols s)) (batch_key symbols) =
           Some \<lparr>entry_d = fst (batch_quotes w symbols s), entry_t = now_write w\<rparr>"
  by (simp_all add: batch_quotes_on_miss [OF assms] Let_def requests_set_cache requests_sent
      requests_cached cache_set_cache)

text \<open>
  The batch operation on a list of string symbols. An empty list is answered with the
  empty list and no request. The handler depends on the first 20 symbols only; on a
  cache miss it sends one request, for those symbols with \<open>.NS\<close> and \<open>.BO\<close> deleted,
  and answers with what its \<open>try\<close> block leaves in \<open>results\<close>: the empty list after a
  transport failure, a status other than 200, a body that is not JSON, a body without
  a \<open>get\<close> method or a \<open>stocks\<close> that cannot be iterated; otherwise the summaries of
  the listed stocks up to the first one that cannot be mapped.
\<close>

lemma batch_quotes_first_twenty:
  "batch_quotes w [] s = (Quotes [], s)
   \<and> batch_quotes w (take 20 symbols) s = batch_quotes w symbols s
   \<and> (symbols \<noteq> [] \<and> cache_lookup (now_read w) (batch_key symbols) ''quote'' s = None \<longrightarrow>
        requests (snd (batch_quotes w symbols s)) =
          requests s @ [ISMA_list (join '','' (map clean_symbol (take 20 symbols)))]
        \<and> fst (batch_quotes w symbols s) =
            Quotes (fst (batch_results (isma_list w (join '','' (map clean_symbol (take 20 symbols)))))))
   \<and> fst (batch_results Transport_failure) = []
   \<and> (code \<noteq> 200 \<longrightarrow> fst (batch_results (Http_reply code body)) = [])
   \<and> fst (batch_results (Http_reply 200 None)) = []
   \<and> (\<forall>e. attr_get data ''stocks'' (PList []) = Inl e \<longrightarrow>
          fst (batch_results (Http_reply 200 (Some data))) = [])
   \<and> (\<forall>stocks e. attr_get data ''stocks'' (PList []) = Inr stocks \<and> iterate stocks = Inl e \<longrightarrow>
          fst (batch_results (Http_reply 200 (Some data))) = [])
   \<and> (\<forall>stocks items. attr_get data ''stocks'' (PList []) = Inr stocks \<and> iterate stocks = Inr items \<longrightarrow>
          fst (batch_results (Http_reply 200 (Some data))) = mapped_prefix items)"
proof -
  have a: "batch_quotes w [] s = (Quotes [], s)" by (simp add: batch_quotes_def)
  have b: "batch_quotes w (take 20 symbols) s = batch_quotes w symbols s"
    by (simp add: batch_quotes_take)
  have c: "symbols \<noteq> [] \<and> cache_lookup (now_read w) (batch_key symbols) ''quote'' s = None \<longrightarrow>
        requests (snd (batch_quotes w symbols s)) =
          requests s @ [ISMA_list (join '','' (map clean_symbol (take 20 symbols)))]
        \<and> fst (batch_quotes w symbols s) =
            Quotes (fst (batch_results (isma_list w (join '','' (map clean_symbol (take 20 symbols))))))"
    using requests_batch_on_miss(1,2) by simp
  show ?thesis
    using a b c batch_results_failures batch_results_items by simp
qed

text \<open>Twenty-five symbols with every provider down: one request, for the first twenty.\<close>

lemma batch_quotes_twenty_five:
  "batch_quotes world_down [] empty_state = (Quotes [], empty_state)
   \<and> symbols25 \<noteq> []
   \<and> length symbols25 = 25
   \<and> cache_lookup (now_read world_down) (batch_key symbols25) ''quote'' empty_state = None
   \<and> requests (snd (batch_quotes world_down symbols25 empty_state)) =
        [ISMA_list ''TCS,INFY,WIPRO,HDFC,ICICI,SBIN,ITC,LT,ONGC,NTPC,BHEL,GAIL,IOC,BPCL,HCL,TECHM,CIPLA,LUPIN,TITAN,MARUTI'']
   \<and> fst (batch_quotes world_down symbols25 empty_state) = Quotes []"
proof -
  have n: "symbols25 \<noteq> []" and len: "length symbols25 = 25"
    by (simp_all add: symbols25_def)
  have l: "cache_lookup (now_read world_down) (batch_key symbols25) ''quote'' empty_state = None"
    by (rule cache_lookup_empty)
  have j: "join '','' (map clean_symbol (take 20 symbols25)) = ''TCS,INFY,WIPRO,HDFC,ICICI,SBIN,ITC,LT,ONGC,NTPC,BHEL,GAIL,IOC,BPCL,HCL,TECHM,CIPLA,LUPIN,TITAN,MARUTI''"
    by (simp add: symbols25_def clean_symbol_def)
  have d: "isma_list world_down x = Transport_failure" for x
    by (simp add: world_down_def)
  note th = batch_quotes_first_twenty [of world_down empty_state symbols25]
  have a: "batch_quotes world_down [] empty_state = (Quotes [], empty_state)"
    using th by (rule conjunct1)
  have "requests (snd (batch_quotes world_down symbols25 empty_state)) =
          requests empty_state @ [ISMA_list (join '','' (map clean_symbol (take 20 symbols25)))]
        \<and> fst (batch_quotes world_down symbols25 empty_state) =
            Quotes (fst (batch_results (isma_list world_down (join '','' (map clean_symbol (take 20 symbols25))))))"
    using th n l by simp
  then have b: "requests (snd (batch_quotes world_down symbols25 empty_state)) =
        [ISMA_list ''TCS,INFY,WIPRO,HDFC,ICICI,SBIN,ITC,LT,ONGC,NTPC,BHEL,GAIL,IOC,BPCL,HCL,TECHM,CIPLA,LUPIN,TITAN,MARUTI'']"
    and c: "fst (batch_quotes world_down symbols25 empty_state) = Quotes []"
    using th by (simp_all add: j d empty_state_def)
  show ?thesis using a n len l b c by simp
qed

text \<open>
  Claim C7: the batch operation queries the first 20 symbols only, answers an empty list
  without a request, and answers a failure with the empty list. The first two parts hold
  (\<open>batch_quotes_first_twenty\<close>, \<open>batch_quotes_twenty_five\<close>), and so does the third for a
  failure before the loop of line 361. Inside the loop it does not: when the reply lists
  two stocks and the second has a \<open>null\<close> market cap, the division of line 367 raises
  \<open>TypeError\<close> after the first summary has been appended to \<open>results\<close>; the \<open>except\<close>
  branch only logs, and the handler answers with the summary of the first stock and
  stores that list in the cache, where \<open>search_isma\<close> and both financial adapters give
  up the whole answer.
\<close>

theorem batch_quotes_partial_on_failure:
  "snd (batch_results (isma_list world_partial ''A,B'')) = Some TypeError
   \<and> fst (batch_quotes world_partial [''A'', ''B''] empty_state) =
        Quotes [\<lparr>quote_sym = PStr ''A'', quote_name = PStr [], quote_cmp = PNum 0,
                 quote_pe = PNum 0, quote_mcapCr = 1, quote_dayChangePct = PNum 0\<rparr>]
   \<and> fst (batch_quotes world_partial [''A'', ''B''] empty_state) \<noteq> Quotes []
   \<and> map_option entry_d (cache (snd (batch_quotes world_partial [''A'', ''B''] empty_state))
        (batch_key [''A'', ''B''])) =
        Some (Quotes [\<lparr>quote_sym = PStr ''A'', quote_name = PStr [], quote_cmp = PNum 0,
                       quote_pe = PNum 0, quote_mcapCr = 1, quote_dayChangePct = PNum 0\<rparr>])"
proof -
  have r: "batch_results (isma_list world_partial ''A,B'') =
      ([\<lparr>quote_sym = PStr ''A'', quote_name = PStr [], quote_cmp = PNum 0,
         quote_pe = PNum 0, quote_mcapCr = 1, quote_dayChangePct = PNum 0\<rparr>], Some TypeError)"
    by (simp add: world_partial_def batch_results_def attr_get_def dict_get_def quote_of_def
        number_def py_round_def round_half_even_def)
  have n: "[''A'', ''B''] \<noteq> ([] :: string list)" by simp
  have l: "cache_lookup (now_read world_partial) (batch_key [''A'', ''B'']) ''quote'' empty_state = None"
    by (rule cache_lookup_empty)
  have j: "join '','' (map clean_symbol (take 20 [''A'', ''B''])) = ''A,B''"
    by (simp add: clean_symbol_def)
  have f: "fst (batch_quotes world_partial [''A'', ''B''] empty_state) =
          Quotes (fst (batch_results (isma_list world_partial ''A,B'')))"
    using requests_batch_on_miss(2) [OF n l] by (simp only: j)
  have c: "cache (snd (batch_quotes world_partial [''A'', ''B''] empty_state)) (batch_key [''A'', ''B'']) =
          Some \<lparr>entry_d = fst (batch_quotes world_partial [''A'', ''B''] empty_state),
                entry_t = now_write world_partial\<rparr>"
    by (rule requests_batch_on_miss(3) [OF n l])
  show ?thesis by (simp only: c f r) simp
qed

lemma batch_key_permutation:
  assumes "mset (take 20 xs) = mset (take 20 ys)"
  shows "batch_key xs = batch_key ys"
proof -
  have "sort (take 20 xs) = sort (take 20 ys)"
    using assms by (intro properties_for_sort) simp_all
  then show ?thesis by (simp add: batch_key_def)
qed

text \<open>Whatever \<open>batch_quotes\<close> answers for a non-empty request is in the cache under its key.\<close>

lemma batch_cached_after:
  assumes "xs \<noteq> []" and "batch_quotes w xs s = (p, s1)"
  shows "\<exists>e. cache s1 (batch_key xs) = Some e \<and> entry_d e = p"
proof (cases "cache_lookup (now_read w) (batch_key xs) ''quote'' s")
  case (Some p')
  then have "batch_quotes w xs s = (p', s)" using assms(1) by (simp add: batch_quotes_hit)
  then have eq: "p' = p" "s1 = s" using assms(2) by simp_all
  obtain e where "cache s (batch_key xs) = Some e" "entry_d e = p'"
    using Some unfolding cache_lookup_Some by blast
  then show ?thesis using eq by simp
next
  case None
  have "cache (snd (batch_quotes w xs s)) (batch_key xs) =
          Some \<lparr>entry_d = fst (batch_quotes w xs s), entry_t = now_write w\<rparr>"
    by (rule requests_batch_on_miss(3) [OF assms(1) None])
  then show ?thesis using assms(2) by simp
qed

text \<open>
  Claim C10. The cache key of a batch request is \<open>batch:\<close> followed by the sorted first
  20 symbols joined by \<open>_\<close>; two non-empty requests whose first 20 symbols are
  permutations of each other have the same key, and once the first has been answered
  with a non-empty result, the second, at most 300 seconds after the entry was written,
  is answered with that result, with no request sent and the cache left as it is.
\<close>

theorem batch_key_sorted_first_twenty:
  assumes "xs \<noteq> []" and "ys \<noteq> []"
      and "mset (take 20 xs) = mset (take 20 ys)"
      and "batch_quotes w1 xs s = (p, s1)"
      and "truthy_payload p"
  shows "batch_key xs = ''batch:'' @ join ''_'' (sort (take 20 xs))
         \<and> batch_key xs = batch_key ys
         \<and> cache s1 (batch_key xs) \<noteq> None
         \<and> (\<forall>e. cache s1 (batch_key xs) = Some e \<longrightarrow>
               entry_d e = p
               \<and> (\<forall>w2. now_read w2 - entry_t e \<le> 300 \<longrightarrow> batch_quotes w2 ys s1 = (p, s1)))"
proof -
  have k: "batch_key xs = batch_key ys" by (rule batch_key_permutation [OF assms(3)])
  obtain e0 where e0: "cache s1 (batch_key xs) = Some e0" "entry_d e0 = p"
    using batch_cached_after [OF assms(1,4)] by (elim exE conjE)
  have hit: "batch_quotes w2 ys s1 = (p, s1)" if "now_read w2 - entry_t e0 \<le> 300" for w2
  proof -
    have "cache_lookup (now_read w2) (batch_key ys) ''quote'' s1 = Some p"
      unfolding cache_lookup_Some using e0 that assms(5) k by (simp add: TTL_quote)
    then show ?thesis using assms(2) by (simp add: batch_quotes_hit)
  qed
  have "entry_d e = p
        \<and> (\<forall>w2. now_read w2 - entry_t e \<le> 300 \<longrightarrow> batch_quotes w2 ys s1 = (p, s1))"
    if "cache s1 (batch_key xs) = Some e" for e
  proof -
    have "e = e0" using that e0(1) by simp
    then show ?thesis using e0(2) hit by simp
  qed
  then show ?thesis using k e0(1) by (simp add: batch_key_def)
qed

theorem batch_key_sorted_first_twenty_witness:
  "mset (take 20 [''A'', ''B'']) = mset (take 20 [''B'', ''A''])
   \<and> batch_key [''A'', ''B''] = batch_key [''B'', ''A'']
   \<and> truthy_payload (fst (batch_quotes world_partial [''A'', ''B''] empty_state))
   \<and> batch_quotes (world_down\<lparr>now_read := 1301\<rparr>) [''B'', ''A'']
         (snd (batch_quotes world_partial [''A'', ''B''] empty_state))
       = batch_quotes world_partial [''A'', ''B''] empty_state"
proof -
  let ?p = "fst (batch_quotes world_partial [''A'', ''B''] empty_state)"
  let ?s1 = "snd (batch_quotes world_partial [''A'', ''B''] empty_state)"
  let ?e = "\<lparr>entry_d = ?p, entry_t = now_write world_partial\<rparr>"
  have xs: "[''A'', ''B''] \<noteq> ([] :: string list)" and ys: "[''B'', ''A''] \<noteq> ([] :: string list)"
    by simp_all
  have perm: "mset (take 20 [''A'', ''B'']) = mset (take 20 [''B'', ''A''])"
    by simp
  have first: "batch_quotes world_partial [''A'', ''B''] empty_state = (?p, ?s1)"
    by simp
  have l: "cache_lookup (now_read world_partial) (batch_key [''A'', ''B'']) ''quote'' empty_state = None"
    by (rule cache_lookup_empty)
  have j: "join '','' (map clean_symbol (take 20 [''A'', ''B''])) = ''A,B''"
    by (simp add: clean_symbol_def)
  have "?p = Quotes (fst (batch_results (isma_list world_partial ''A,B'')))"
    using requests_batch_on_miss(2) [OF xs l] by (simp only: j)
  then have t: "truthy_payload ?p"
    by (simp add: world_partial_def batch_results_def attr_get_def dict_get_def quote_of_def
        number_def)
  have entry: "cache ?s1 (batch_key [''A'', ''B'']) = Some ?e"
    by (rule requests_batch_on_miss(3) [OF xs l])
  note th = batch_key_sorted_first_twenty [OF xs ys perm first t]
  have k: "batch_key [''A'', ''B''] = batch_key [''B'', ''A'']"
    by (rule th [THEN conjunct2, THEN conjunct1])
  have "batch_quotes (world_down\<lparr>now_read := 1301\<rparr>) [''B'', ''A''] ?s1 = (?p, ?s1)"
    by (rule th [THEN conjunct2, THEN conjunct2, THEN conjunct2, rule_format, OF entry,
          THEN conjunct2, rule_format])
       (simp add: world_partial_def world_down_def)
  then show ?thesis using perm k t by simp
qed

subsection \<open>A cached empty list\<close>

text \<open>An entry that is present and fresh but holds a falsy payload is a miss for the handler.\<close>

lemma cache_lookup_falsy:
  assumes "cache s key = Some e" and "\<not> truthy_payload (entry_d e)"
  shows "cache_lookup now key ty s = None"
  using assms by (simp add: cache_lookup_def cache_hit_def cached_def)

lemma cached_fresh:
  assumes "cache s key = Some e" and "now - entry_t e \<le> TTL ty"
  shows "cached now key ty s = (Some (entry_d e), s)"
  using assms by (simp add: cached_def)

lemma requests_search_isma:
  "requests (snd (search_isma w q s)) = requests s @ [ISMA_search q]"
  by (simp add: search_isma_def requests_sent)

lemma requests_yfinance_search:
  "requests (snd (yfinance_search pf w q s)) = requests s @ [YF_info (q @ ''.NS'')]"
  by (simp add: yfinance_search_def requests_sent Let_def split: option.splits pyval.splits)

lemma search_on_miss:
  assumes "2 \<le> length (strip q_arg)"
      and "cache_lookup (now_read w) (search_key (strip q_arg)) ''search'' s = None"
  shows "take (Suc (length (requests s))) (requests (snd (search pf w q_arg s))) =
           requests s @ [ISMA_search (strip q_arg)]"
    and "cache (snd (search pf w q_arg s)) (search_key (strip q_arg)) =
           Some \<lparr>entry_d = fst (search pf w q_arg s), entry_t = now_write w\<rparr>"
proof -
  let ?q = "strip q_arg"
  let ?s1 = "snd (cached (now_read w) (search_key ?q) ''search'' s)"
  have q: "?q \<noteq> []" "\<not> length ?q < 2" using assms(1) by auto
  obtain results s2 where r: "search_isma w ?q ?s1 = (results, s2)" by (metis surj_pair)
  then have s2: "requests s2 = requests s @ [ISMA_search ?q]"
    using requests_search_isma [of w ?q ?s1] by (simp add: requests_cached)
  obtain results2 s3 where y: "yfinance_search pf w ?q s2 = (results2, s3)" by (metis surj_pair)
  then have s3: "requests s3 = requests s @ [ISMA_search ?q] @ [YF_info (?q @ ''.NS'')]"
    using requests_yfinance_search [of pf w ?q s2] by (simp add: s2)
  have full: "search pf w q_arg s =
      (if results = [] then (Hits results2, set_cache (now_write w) (search_key ?q) (Hits results2) s3)
       else (Hits results, set_cache (now_write w) (search_key ?q) (Hits results) s2))"
    using assms(2) q r y
    by (auto simp: search_def Let_def cache_lookup_def split: prod.splits)
  show "take (Suc (length (requests s))) (requests (snd (search pf w q_arg s))) =
           requests s @ [ISMA_search ?q]"
    by (simp add: full requests_set_cache s2 s3)
  show "cache (snd (search pf w q_arg s)) (search_key ?q) =
           Some \<lparr>entry_d = fst (search pf w q_arg s), entry_t = now_write w\<rparr>"
    by (simp add: full cache_set_cache)
qed

lemma strip_tcs: "strip ''tcs'' = ''tcs''"
  by (simp add: strip_def is_space_def)

lemma search_all_down:
  "search pf world_down ''tcs'' empty_state =
     (Hits [], set_cache 1001 (search_key ''tcs'') (Hits [])
                 (sent (YF_info ''tcs.NS'') (sent (ISMA_search ''tcs'') empty_state)))"
  by (simp add: search_def strip_tcs cached_empty cache_hit_def search_isma_def
      search_hits_of_def yfinance_search_def world_down_def Let_def)

lemma batch_all_down:
  "batch_quotes world_down [''A''] empty_state =
     (Quotes [], set_cache 1001 (batch_key [''A'']) (Quotes [])
                   (sent (ISMA_list ''A'') empty_state))"
  by (simp add: batch_quotes_def cached_empty cache_hit_def batch_results_def clean_symbol_def
      world_down_def Let_def)

text \<open>
  Claim C9. When the cache holds an empty list under the key of a search or of a batch
  request, and the entry is within its TTL, \<open>cached\<close> returns the empty list, the handler
  takes it for a miss, sends the upstream request again and overwrites the entry with
  the new result and the new time.
\<close>

theorem cached_empty_list_is_refetched:
  "(2 \<le> length (strip q_arg) \<and> cache s (search_key (strip q_arg)) = Some e
      \<and> entry_d e = Hits [] \<and> now_read w - entry_t e \<le> 86400 \<longrightarrow>
      cached (now_read w) (search_key (strip q_arg)) ''search'' s = (Some (Hits []), s)
      \<and> take (Suc (length (requests s))) (requests (snd (search pf w q_arg s))) =
            requests s @ [ISMA_search (strip q_arg)]
      \<and> cache (snd (search pf w q_arg s)) (search_key (strip q_arg)) =
            Some \<lparr>entry_d = fst (search pf w q_arg s), entry_t = now_write w\<rparr>)
   \<and> (symbols \<noteq> [] \<and> cache s (batch_key symbols) = Some e
      \<and> entry_d e = Quotes [] \<and> now_read w - entry_t e \<le> 300 \<longrightarrow>
      cached (now_read w) (batch_key symbols) ''quote'' s = (Some (Quotes []), s)
      \<and> requests (snd (batch_quotes w symbols s)) =
            requests s @ [ISMA_list (join '','' (map clean_symbol (take 20 symbols)))]
      \<and> cache (snd (batch_quotes w symbols s)) (batch_key symbols) =
            Some \<lparr>entry_d = fst (batch_quotes w symbols s), entry_t = now_write w\<rparr>)"
proof (intro conjI impI)
  assume a: "2 \<le> length (strip q_arg) \<and> cache s (search_key (strip q_arg)) = Some e
      \<and> entry_d e = Hits [] \<and> now_read w - entry_t e \<le> 86400"
  then have miss: "cache_lookup (now_read w) (search_key (strip q_arg)) ''search'' s = None"
    by (simp add: cache_lookup_falsy)
  show "cached (now_read w) (search_key (strip q_arg)) ''search'' s = (Some (Hits []), s)"
    using a cached_fresh [of s "search_key (strip q_arg)" e "now_read w" "''search''"]
    by (simp add: TTL_search)
  show "take (Suc (length (requests s))) (requests (snd (search pf w q_arg s))) =
            requests s @ [ISMA_search (strip q_arg)]"
    using a miss by (simp add: search_on_miss(1))
  show "cache (snd (search pf w q_arg s)) (search_key (strip q_arg)) =
            Some \<lparr>entry_d = fst (search pf w q_arg s), entry_t = now_write w\<rparr>"
    using a miss by (simp add: search_on_miss(2))
next
  assume a: "symbols \<noteq> [] \<and> cache s (batch_key symbols) = Some e
      \<and> entry_d e = Quotes [] \<and> now_read w - entry_t e \<le> 300"
  then have miss: "cache_lookup (now_read w) (batch_key symbols) ''quote'' s = None"
    by (simp add: cache_lookup_falsy)
  show "cached (now_read w) (batch_key symbols) ''quote'' s = (Some (Quotes []), s)"
    using a cached_fresh [of s "batch_key symbols" e "now_read w" "''quote''"]
    by (simp add: TTL_quote)
  show "requests (snd (batch_quotes w symbols s)) =
            requests s @ [ISMA_list (join '','' (map clean_symbol (take 20 symbols)))]"
    using a miss by (simp add: requests_batch_on_miss(1))
  show "cache (snd (batch_quotes w symbols s)) (batch_key symbols) =
            Some \<lparr>entry_d = fst (batch_quotes w symbols s), entry_t = now_write w\<rparr>"
    using a miss by (simp add: requests_batch_on_miss(3))
qed

theorem cached_empty_list_is_refetched_witness:
  "fst (search exact_platform world_down ''tcs'' empty_state) = Hits []
   \<and> take 3 (requests (snd (search exact_platform (world_down\<lparr>now_read := 2000\<rparr>) ''tcs''
                              (snd (search exact_platform world_down ''tcs'' empty_state)))))
       = [ISMA_search ''tcs'', YF_info ''tcs.NS'', ISMA_search ''tcs'']
   \<and> fst (batch_quotes world_down [''A''] empty_state) = Quotes []
   \<and> requests (snd (batch_quotes (world_down\<lparr>now_read := 1100\<rparr>) [''A'']
                       (snd (batch_quotes world_down [''A''] empty_state))))
       = [ISMA_list ''A'', ISMA_list ''A'']"
proof -
  let ?s1 = "snd (search exact_platform world_down ''tcs'' empty_state)"
  let ?e1 = "\<lparr>entry_d = Hits [], entry_t = 1001\<rparr>"
  let ?w1 = "world_down\<lparr>now_read := 2000\<rparr>"
  let ?s2 = "snd (batch_quotes world_down [''A''] empty_state)"
  let ?e2 = "\<lparr>entry_d = Quotes [], entry_t = 1001\<rparr>"
  let ?w2 = "world_down\<lparr>now_read := 1100\<rparr>"
  have c1: "cache ?s1 (search_key (strip ''tcs'')) = Some ?e1"
    by (simp add: search_all_down cache_set_cache strip_tcs)
  have "requests ?s1 = requests empty_state @ [ISMA_search ''tcs'', YF_info ''tcs.NS'']"
    by (simp add: search_all_down requests_set_cache requests_sent)
  then have r1: "requests ?s1 = [ISMA_search ''tcs'', YF_info ''tcs.NS'']"
    by (simp add: empty_state_def)
  have a1: "2 \<le> length (strip ''tcs'') \<and> cache ?s1 (search_key (strip ''tcs'')) = Some ?e1
      \<and> entry_d ?e1 = Hits [] \<and> now_read ?w1 - entry_t ?e1 \<le> 86400"
    using c1 by (simp add: strip_tcs)
  have "take (Suc (length (requests ?s1))) (requests (snd (search exact_platform ?w1 ''tcs'' ?s1))) =
            requests ?s1 @ [ISMA_search (strip ''tcs'')]"
    using cached_empty_list_is_refetched [of "''tcs''" ?s1 ?e1 ?w1 exact_platform, THEN conjunct1, rule_format, OF a1]
    by (rule conjunct2 [THEN conjunct1])
  then have t1: "take 3 (requests (snd (search exact_platform ?w1 ''tcs'' ?s1)))
       = [ISMA_search ''tcs'', YF_info ''tcs.NS'', ISMA_search ''tcs'']"
    by (simp add: r1 strip_tcs eval_nat_numeral)
  have c2: "cache ?s2 (batch_key [''A'']) = Some ?e2"
    by (simp add: batch_all_down cache_set_cache)
  have "requests ?s2 = requests empty_state @ [ISMA_list ''A'']"
    by (simp add: batch_all_down requests_set_cache requests_sent)
  then have r2: "requests ?s2 = [ISMA_list ''A'']"
    by (simp add: empty_state_def)
  have a2: "[''A''] \<noteq> ([] :: string list) \<and> cache ?s2 (batch_key [''A'']) = Some ?e2
      \<and> entry_d ?e2 = Quotes [] \<and> now_read ?w2 - entry_t ?e2 \<le> 300"
    using c2 by simp
  have "requests (snd (batch_quotes ?w2 [''A''] ?s2)) =
            requests ?s2 @ [ISMA_list (join '','' (map clean_symbol (take 20 [''A''])))]"
    using cached_empty_list_is_refetched [of _ ?s2 ?e2 ?w2 _ "[''A'']", THEN conjunct2, rule_format, OF a2]
    by (rule conjunct2 [THEN conjunct1])
  then have t2: "requests (snd (batch_quotes ?w2 [''A''] ?s2)) = [ISMA_list ''A'', ISMA_list ''A'']"
    by (simp add: r2 clean_symbol_def)
  show ?thesis using t1 t2 by (simp add: search_all_down batch_all_down)
qed

end
